theory Spec2Isabelle
  imports Complex_Main "HOL-Library.Word"
begin

text \<open>
  The upload route of the chat parser: the \<open>POST\<close> handler that has the manual line
  parser as its fallback (\<open>src/app/api/messages/route.ts\<close>, lines 85 to 476), and the
  functions of \<open>src/lib/db.ts\<close> it calls. Line numbers in the comments are those of
  that file.
\<close>

section \<open>JavaScript strings\<close>

text \<open>
  A JavaScript string is a sequence of UTF-16 code units; \<open>length\<close>, \<open>substring\<close>,
  \<open>trim\<close>, \<open>split\<close> and the regular expressions of the route (none has the \<open>u\<close> flag)
  all work on code units. \<open>str\<close> embeds an ASCII literal.
\<close>

type_synonym code_unit = "16 word"
type_synonym jsstring = "code_unit list"

definition str :: "string \<Rightarrow> jsstring" where
  "str s = map of_char s"

definition cu :: "char \<Rightarrow> code_unit" where
  "cu c = of_char c"

text \<open>
  \<open>is_ws\<close> is the set stripped by \<open>String.prototype.trim\<close> and matched by \<open>\s\<close>:
  the WhiteSpace and LineTerminator code points of ECMAScript.
\<close>

definition is_line_terminator :: "code_unit \<Rightarrow> bool" where
  "is_line_terminator c = (c = 0x0A \<or> c = 0x0D \<or> c = 0x2028 \<or> c = 0x2029)"

definition is_ws :: "code_unit \<Rightarrow> bool" where
  "is_ws c =
     (c = 0x09 \<or> c = 0x0A \<or> c = 0x0B \<or> c = 0x0C \<or> c = 0x0D \<or> c = 0x20 \<or> c = 0xA0 \<or>
      c = 0x1680 \<or> (0x2000 \<le> c \<and> c \<le> 0x200A) \<or> c = 0x2028 \<or> c = 0x2029 \<or>
      c = 0x202F \<or> c = 0x205F \<or> c = 0x3000 \<or> c = 0xFEFF)"

definition trim :: "jsstring \<Rightarrow> jsstring" where
  "trim s = rev (dropWhile is_ws (rev (dropWhile is_ws s)))"

fun startsWith :: "jsstring \<Rightarrow> jsstring \<Rightarrow> bool" where
  "startsWith s [] = True"
| "startsWith [] (p # ps) = False"
| "startsWith (x # xs) (p # ps) = (x = p \<and> startsWith xs ps)"

definition endsWith :: "jsstring \<Rightarrow> jsstring \<Rightarrow> bool" where
  "endsWith s p = startsWith (rev s) (rev p)"

fun includes_str :: "jsstring \<Rightarrow> jsstring \<Rightarrow> bool" where
  "includes_str [] p = (p = [])"
| "includes_str (x # xs) p = (startsWith (x # xs) p \<or> includes_str xs p)"

definition substring :: "jsstring \<Rightarrow> nat \<Rightarrow> nat \<Rightarrow> jsstring" where
  "substring s i j = take (j - i) (drop i s)"

text \<open>\<open>s.split(sep)\<close> for a one-character separator: never empty, \<open>''''.split\<close> is \<open>['''']\<close>.\<close>

fun split :: "jsstring \<Rightarrow> code_unit \<Rightarrow> jsstring list" where
  "split [] sep = [[]]"
| "split (x # xs) sep =
     (if x = sep then [] # split xs sep
      else (case split xs sep of [] \<Rightarrow> [[x]] | l # ls \<Rightarrow> (x # l) # ls))"

text \<open>Decimal rendering of an array index or length inside a template literal.\<close>

definition digit :: "nat \<Rightarrow> code_unit" where
  "digit d = of_nat (48 + d)"

function show_nat :: "nat \<Rightarrow> jsstring" where
  "show_nat n = (if n < 10 then [digit n] else show_nat (n div 10) @ [digit (n mod 10)])"
  by pat_completeness auto
termination
  by (relation "measure id") auto

section \<open>The regular expressions of the route\<close>

text \<open>
  Every regular expression of the route is a sequence of literal characters and of
  character classes under a greedy \<open>*\<close> or \<open>+\<close>, some of them captured, with an optional
  \<open>^\<close> in front and an optional \<open>$\<close> at the end. \<open>rmatch\<close> is the backtracking matcher
  of ECMAScript on that fragment: a quantifier first takes the longest run of its class
  and gives characters back one at a time while the rest of the pattern fails.
\<close>

datatype atom = Star "code_unit \<Rightarrow> bool" | Plus "code_unit \<Rightarrow> bool"

datatype piece = Lit code_unit | Rep atom | Cap atom | Eol

fun class_of :: "atom \<Rightarrow> code_unit \<Rightarrow> bool" where
  "class_of (Star p) = p"
| "class_of (Plus p) = p"

fun least :: "atom \<Rightarrow> nat" where
  "least (Star p) = 0"
| "least (Plus p) = 1"

definition lits :: "string \<Rightarrow> piece list" where
  "lits s = map (\<lambda>c. Lit (cu c)) s"

definition any_char :: "code_unit \<Rightarrow> bool" where
  "any_char c = True"

definition dot :: "code_unit \<Rightarrow> bool" where
  "dot c = (\<not> is_line_terminator c)"

definition non_ws :: "code_unit \<Rightarrow> bool" where
  "non_ws c = (\<not> is_ws c)"

definition none_of :: "string \<Rightarrow> code_unit \<Rightarrow> bool" where
  "none_of cs c = (c \<notin> set (str cs))"

text \<open>
  \<open>rmatch ps s\<close> matches the pieces at the start of \<open>s\<close> and returns the captures and
  the text left over; \<open>retry cap lo ps s k\<close> tries a quantified class on the first \<open>k\<close>
  characters, then on \<open>k - 1\<close>, down to \<open>lo\<close>.
\<close>

fun rmatch :: "piece list \<Rightarrow> jsstring \<Rightarrow> (jsstring list \<times> jsstring) option"
  and retry :: "bool \<Rightarrow> nat \<Rightarrow> piece list \<Rightarrow> jsstring \<Rightarrow> nat \<Rightarrow> (jsstring list \<times> jsstring) option"
where
  "rmatch [] s = Some ([], s)"
| "rmatch (Eol # ps) s = (if s = [] then rmatch ps s else None)"
| "rmatch (Lit c # ps) s =
     (case s of [] \<Rightarrow> None | x # xs \<Rightarrow> if x = c then rmatch ps xs else None)"
| "rmatch (Rep a # ps) s = retry False (least a) ps s (length (takeWhile (class_of a) s))"
| "rmatch (Cap a # ps) s = retry True (least a) ps s (length (takeWhile (class_of a) s))"
| "retry cap lo ps s k =
     (if k < lo then None
      else (case rmatch ps (drop k s) of
              Some (caps, rest) \<Rightarrow> Some (if cap then take k s # caps else caps, rest)
            | None \<Rightarrow> (case k of 0 \<Rightarrow> None | Suc k' \<Rightarrow> retry cap lo ps s k')))"

text \<open>
  A pattern without \<open>^\<close> is tried at every start position from the left. The result is
  the text before the match, the match array of JavaScript (the whole match, then the
  groups) and the text after the match.
\<close>

record regex =
  anchored :: bool
  pieces :: "piece list"

definition exec_at :: "piece list \<Rightarrow> jsstring \<Rightarrow> (jsstring list \<times> jsstring) option" where
  "exec_at ps s =
     (case rmatch ps s of
        None \<Rightarrow> None
      | Some (caps, rest) \<Rightarrow> Some (take (length s - length rest) s # caps, rest))"

fun search :: "piece list \<Rightarrow> jsstring \<Rightarrow> (jsstring \<times> jsstring list \<times> jsstring) option" where
  "search ps s =
     (case exec_at ps s of
        Some (m, rest) \<Rightarrow> Some ([], m, rest)
      | None \<Rightarrow>
          (case s of
             [] \<Rightarrow> None
           | x # xs \<Rightarrow>
               (case search ps xs of
                  None \<Rightarrow> None
                | Some (before, m, rest) \<Rightarrow> Some (x # before, m, rest))))"

definition exec :: "regex \<Rightarrow> jsstring \<Rightarrow> (jsstring \<times> jsstring list \<times> jsstring) option" where
  "exec r s =
     (if anchored r
      then (case exec_at (pieces r) s of None \<Rightarrow> None | Some (m, rest) \<Rightarrow> Some ([], m, rest))
      else search (pieces r) s)"

text \<open>\<open>s.match(r)\<close> for a regular expression without the \<open>g\<close> flag.\<close>

definition match :: "jsstring \<Rightarrow> regex \<Rightarrow> jsstring list option" where
  "match s r = (case exec r s of None \<Rightarrow> None | Some (before, m, rest) \<Rightarrow> Some m)"

text \<open>\<open>s.replace(r, '''')\<close>: the first match is cut out.\<close>

definition remove_first :: "jsstring \<Rightarrow> regex \<Rightarrow> jsstring" where
  "remove_first s r = (case exec r s of None \<Rightarrow> s | Some (before, m, rest) \<Rightarrow> before @ rest)"

section \<open>JavaScript values and chat messages\<close>

text \<open>
  The values \<open>JSON.parse\<close> can return, and \<open>undefined\<close> for a property that is not
  there. A number is an IEEE double: a rational, an infinity (\<open>JSON.parse(''1e999'')\<close>)
  or NaN; only its truthiness is used. An object is the list of its own properties.
\<close>

datatype jsnumber = Num rat | PosInfinity | NegInfinity | NaN

datatype jsvalue =
    JUndefined
  | JNull
  | JBool bool
  | JNumber jsnumber
  | JString jsstring
  | JArray "jsvalue list"
  | JObject "(jsstring \<times> jsvalue) list"

fun truthy :: "jsvalue \<Rightarrow> bool" where
  "truthy JUndefined = False"
| "truthy JNull = False"
| "truthy (JBool b) = b"
| "truthy (JNumber (Num q)) = (q \<noteq> 0)"
| "truthy (JNumber PosInfinity) = True"
| "truthy (JNumber NegInfinity) = True"
| "truthy (JNumber NaN) = False"
| "truthy (JString s) = (s \<noteq> [])"
| "truthy (JArray xs) = True"
| "truthy (JObject kvs) = True"

fun typeof :: "jsvalue \<Rightarrow> jsstring" where
  "typeof JUndefined = str ''undefined''"
| "typeof JNull = str ''object''"
| "typeof (JBool b) = str ''boolean''"
| "typeof (JNumber n) = str ''number''"
| "typeof (JString s) = str ''string''"
| "typeof (JArray xs) = str ''object''"
| "typeof (JObject kvs) = str ''object''"

fun isArray :: "jsvalue \<Rightarrow> bool" where
  "isArray (JArray xs) = True"
| "isArray v = False"

text \<open>
  \<open>msg.sender\<close>, \<open>msg.timestamp\<close> and \<open>msg.message\<close>, read from a value that passed the
  check \<open>!msg || typeof msg !== 'object'\<close>: an own property of an object, and
  \<open>undefined\<close> on an array (neither \<open>Array.prototype\<close> nor \<open>Object.prototype\<close> has
  one of the three names).
\<close>

fun get_prop :: "jsvalue \<Rightarrow> jsstring \<Rightarrow> jsvalue" where
  "get_prop (JObject kvs) k = (case map_of kvs k of None \<Rightarrow> JUndefined | Some v \<Rightarrow> v)"
| "get_prop v k = JUndefined"

text \<open>\<open>a || b\<close>\<close>

definition or_else :: "jsvalue \<Rightarrow> jsvalue \<Rightarrow> jsvalue" where
  "or_else a b = (if truthy a then a else b)"

text \<open>
  The object literal \<open>{sender, timestamp, message}\<close> that the route builds and hands to
  \<open>insertChatMessages\<close>. TypeScript types the three fields as \<open>string\<close>, but validation
  keeps any truthy value of the parsed JSON, so a field is a \<open>jsvalue\<close>.
\<close>

record chat_message =
  sender :: jsvalue
  timestamp :: jsvalue
  message :: jsvalue

section \<open>The manual line parser\<close>

text \<open>\<open>/^\[([^\]]+)\]\s*([^:]+):\s*(.+)$/\<close>\<close>

definition format1 :: regex where
  "format1 = \<lparr>anchored = True, pieces =
     [Lit (cu CHR ''[''), Cap (Plus (none_of '']'')), Lit (cu CHR '']''), Rep (Star is_ws),
      Cap (Plus (none_of '':'')), Lit (cu CHR '':''), Rep (Star is_ws), Cap (Plus dot), Eol]\<rparr>"

text \<open>\<open>/^([^\s]+)\s+([^:]+):\s*(.+)$/\<close>\<close>

definition format2 :: regex where
  "format2 = \<lparr>anchored = True, pieces =
     [Cap (Plus non_ws), Rep (Plus is_ws),
      Cap (Plus (none_of '':'')), Lit (cu CHR '':''), Rep (Star is_ws), Cap (Plus dot), Eol]\<rparr>"

text \<open>\<open>/^([^:]+):\s*(.+)$/\<close>\<close>

definition format3 :: regex where
  "format3 = \<lparr>anchored = True, pieces =
     [Cap (Plus (none_of '':'')), Lit (cu CHR '':''), Rep (Star is_ws), Cap (Plus dot), Eol]\<rparr>"

text \<open>
  The body of the loop of \<open>parseChatManually\<close> for one line: the record it pushes, or
  \<open>None\<close> when the line is blank or matches no format and the loop goes on.
\<close>

definition parse_line :: "jsstring \<Rightarrow> chat_message option" where
  "parse_line line =
     (let trimmedLine = trim line in
      if trimmedLine = [] then None
      else (case match trimmedLine format1 of
        Some m \<Rightarrow> Some \<lparr>sender = JString (trim (m ! 2)), timestamp = JString (trim (m ! 1)),
                        message = JString (trim (m ! 3))\<rparr>
      | None \<Rightarrow> (case match trimmedLine format2 of
        Some m \<Rightarrow> Some \<lparr>sender = JString (trim (m ! 2)), timestamp = JString (trim (m ! 1)),
                        message = JString (trim (m ! 3))\<rparr>
      | None \<Rightarrow> (case match trimmedLine format3 of
        Some m \<Rightarrow> Some \<lparr>sender = JString (trim (m ! 1)), timestamp = JString (str ''Unknown''),
                        message = JString (trim (m ! 2))\<rparr>
      | None \<Rightarrow> None))))"

fun parse_lines :: "jsstring list \<Rightarrow> chat_message list \<Rightarrow> chat_message list" where
  "parse_lines [] messages = messages"
| "parse_lines (line # lines) messages =
     (case parse_line line of
        None \<Rightarrow> parse_lines lines messages
      | Some m \<Rightarrow> parse_lines lines (messages @ [m]))"

definition parseChatManually :: "jsstring \<Rightarrow> chat_message list" where
  "parseChatManually content = parse_lines (split content (cu CHR 0x0A)) []"

section \<open>The response sanitizer and the key/value recovery\<close>

definition backtick :: code_unit where
  "backtick = 0x60"

definition dquote :: code_unit where
  "dquote = 0x22"

definition fence :: jsstring where
  "fence = [backtick, backtick, backtick]"

text \<open>\<open>/^```json\s*/\<close>, \<open>/^```\s*/\<close> and \<open>/\s*```$/\<close>\<close>

definition re_open_json :: regex where
  "re_open_json = \<lparr>anchored = True, pieces =
     [Lit backtick, Lit backtick, Lit backtick] @ lits ''json'' @ [Rep (Star is_ws)]\<rparr>"

definition re_open :: regex where
  "re_open = \<lparr>anchored = True, pieces =
     [Lit backtick, Lit backtick, Lit backtick, Rep (Star is_ws)]\<rparr>"

definition re_close :: regex where
  "re_close = \<lparr>anchored = False, pieces =
     [Rep (Star is_ws), Lit backtick, Lit backtick, Lit backtick, Eol]\<rparr>"

text \<open>\<open>/\[[\s\S]*\]/\<close>, \<open>/^[^{[]*/\<close> and \<open>/[^}\]]*$/\<close>\<close>

definition re_array :: regex where
  "re_array = \<lparr>anchored = False, pieces =
     [Lit (cu CHR ''[''), Rep (Star any_char), Lit (cu CHR '']'')]\<rparr>"

definition re_before :: regex where
  "re_before = \<lparr>anchored = True, pieces = [Rep (Star (none_of ''{[''))]\<rparr>"

definition re_after :: regex where
  "re_after = \<lparr>anchored = False, pieces = [Rep (Star (none_of ''}]'')), Eol]\<rparr>"

text \<open>
  The cleanup of the model's reply (lines 358 to 380 of the upload route): the text
  that is handed to \<open>JSON.parse\<close>.
\<close>

definition sanitize :: "jsstring \<Rightarrow> jsstring" where
  "sanitize responseText =
     (let cleanedResponse = trim responseText;
          cleanedResponse =
            (if startsWith cleanedResponse (fence @ str ''json'')
             then remove_first (remove_first cleanedResponse re_open_json) re_close
             else if startsWith cleanedResponse fence
             then remove_first (remove_first cleanedResponse re_open) re_close
             else cleanedResponse);
          cleanedResponse = trim cleanedResponse;
          cleanedResponse =
            (case match cleanedResponse re_array of
               Some jsonMatch \<Rightarrow> jsonMatch ! 0
             | None \<Rightarrow> cleanedResponse)
      in trim (remove_first (remove_first cleanedResponse re_before) re_after))"

text \<open>
  A value thrown and caught: an \<open>Error\<close> object with its \<open>name\<close> and \<open>message\<close>, or
  anything that is not an instance of \<open>Error\<close>.
\<close>

datatype thrown = JsError jsstring jsstring | NonError

definition new_Error :: "jsstring \<Rightarrow> thrown" where
  "new_Error msg = JsError (str ''Error'') msg"

text \<open>The message thrown when neither \<open>JSON.parse\<close> nor the recovery gives records.\<close>

definition errorMessage :: "jsstring \<Rightarrow> jsstring" where
  "errorMessage responseText =
     str ''Invalid JSON response from OpenAI.'' @
     (if includes_str responseText fence
      then str '' The response appears to contain markdown formatting that could not be parsed.''
      else if \<not> includes_str responseText (str ''['') \<or> \<not> includes_str responseText (str '']'')
      then str '' The response does not appear to contain a JSON array.''
      else str '' The JSON structure is malformed.'') @
     str '' Raw response preview: '' @ substring responseText 0 300 @ str ''...''"

text \<open>\<open>/"sender":\s*"([^"]*)"/\<close> and its two siblings\<close>

definition key_regex :: "string \<Rightarrow> regex" where
  "key_regex key = \<lparr>anchored = False, pieces =
     [Lit dquote] @ lits key @ [Lit dquote, Lit (cu CHR '':''), Rep (Star is_ws),
      Lit dquote, Cap (Star (\<lambda>c. c \<noteq> dquote)), Lit dquote]\<rparr>"

definition captured_or :: "jsstring list option \<Rightarrow> jsstring \<Rightarrow> jsvalue" where
  "captured_or m other = (case m of Some groups \<Rightarrow> JString (groups ! 1) | None \<Rightarrow> JString other)"

text \<open>
  One line of the recovery loop (lines 408 to 424): the object it pushes, or \<open>None\<close>.
\<close>

definition recover_line :: "jsstring \<Rightarrow> jsvalue option" where
  "recover_line line =
     (let trimmedLine = trim line in
      if trimmedLine \<noteq> [] \<and>
         (includes_str trimmedLine (str ''sender'') \<or> includes_str trimmedLine (str ''timestamp'') \<or>
          includes_str trimmedLine (str ''message''))
      then
        (let senderMatch = match trimmedLine (key_regex ''sender'');
             timestampMatch = match trimmedLine (key_regex ''timestamp'');
             messageMatch = match trimmedLine (key_regex ''message'')
         in if senderMatch \<noteq> None \<or> timestampMatch \<noteq> None \<or> messageMatch \<noteq> None
            then Some (JObject
              [(str ''sender'', captured_or senderMatch (str ''Unknown'')),
               (str ''timestamp'', captured_or timestampMatch (str ''Unknown'')),
               (str ''message'', captured_or messageMatch [])])
            else None)
      else None)"

fun recover_lines :: "jsstring list \<Rightarrow> jsvalue list \<Rightarrow> jsvalue list" where
  "recover_lines [] fallbackMessages = fallbackMessages"
| "recover_lines (line # lines) fallbackMessages =
     (case recover_line line of
        None \<Rightarrow> recover_lines lines fallbackMessages
      | Some m \<Rightarrow> recover_lines lines (fallbackMessages @ [m]))"

section \<open>Validation of the parsed records\<close>

text \<open>
  \<open>parsedMessages.map((msg, index) => ...)\<close> of lines 444 to 454: the first element that
  is falsy or not of type object throws, naming its index.
\<close>

definition normalize_message :: "jsvalue \<Rightarrow> chat_message" where
  "normalize_message msg =
     \<lparr>sender = or_else (get_prop msg (str ''sender'')) (JString (str ''Unknown'')),
      timestamp = or_else (get_prop msg (str ''timestamp'')) (JString (str ''Unknown'')),
      message = or_else (get_prop msg (str ''message'')) (JString [])\<rparr>"

definition invalid_element :: "jsvalue \<Rightarrow> bool" where
  "invalid_element msg = (\<not> truthy msg \<or> typeof msg \<noteq> str ''object'')"

fun validate_from :: "nat \<Rightarrow> jsvalue list \<Rightarrow> thrown + chat_message list" where
  "validate_from index [] = Inr []"
| "validate_from index (msg # rest) =
     (if invalid_element msg
      then Inl (new_Error (str ''Invalid message at index '' @ show_nat index))
      else (case validate_from (Suc index) rest of
              Inl e \<Rightarrow> Inl e
            | Inr validated \<Rightarrow> Inr (normalize_message msg # validated)))"

definition validate_messages :: "jsvalue \<Rightarrow> thrown + chat_message list" where
  "validate_messages parsedMessages =
     (case parsedMessages of
        JArray elements \<Rightarrow> validate_from 0 elements
      | _ \<Rightarrow> Inl (new_Error (str ''Expected an array of messages'')))"

section \<open>The request, its environment and the message store\<close>

text \<open>
  Everything the route reads from outside is a field of \<open>world\<close>: the environment
  variables, the form's \<open>file\<close> entry, what the constructor of the OpenAI client
  does with the key it is given (the error it throws, if any), what each completion
  call does (it throws, or it
  returns \<open>choices[0]?.message?.content\<close>, which may be null or undefined), what
  \<open>JSON.parse\<close> does on a text, whether a call of the MongoDB driver fails, and the
  successive readings of \<open>new Date()\<close>, which nothing orders.

  The \<open>file\<close> entry of a form is a file, or a string when the field was sent as text:
  line 160 casts it to \<open>File\<close> without a check.
\<close>

record upload =
  file_name :: jsstring
  file_size :: nat
  file_text :: jsstring

datatype form_entry = File_value upload | String_value jsstring

datatype attempt = Threw thrown | Returned "jsstring option"

record stamped = chat_message +
  created_at :: nat

record chat_doc = stamped +
  doc_id :: nat

record world =
  OPENAI_API_KEY :: "jsstring option"
  MONGODB_URI :: "jsstring option"
  NODE_ENV :: "jsstring option"
  form_data :: "thrown + form_entry option"
  new_OpenAI :: "jsstring option \<Rightarrow> thrown option"
  completion :: "jsstring \<Rightarrow> attempt"
  JSON_parse :: "jsstring \<Rightarrow> thrown + jsvalue"
  connect_fault :: "thrown option"
  createIndex_fault :: "jsstring \<Rightarrow> thrown option"
  insertMany_fault :: "stamped list \<Rightarrow> thrown option"
  find_fault :: "thrown option"
  now :: "nat \<Rightarrow> nat"

text \<open>
  The state a request changes: the cached connection of \<open>db.ts\<close>, the collection (its
  documents in insertion order, and the next fresh \<open>_id\<close>), the number of clock
  readings taken, and the calls made to the outside, in order.
\<close>

datatype call =
    FormData
  | Connect
  | CreateIndex jsstring
  | Completion jsstring
  | JSON_Parse jsstring
  | InsertMany "stamped list"
  | Find "nat list"

record state =
  connected :: bool
  docs :: "chat_doc list"
  next_id :: nat
  ticks :: nat
  calls :: "call list"

definition log_call :: "call \<Rightarrow> state \<Rightarrow> state" where
  "log_call c st = st\<lparr>calls := calls st @ [c]\<rparr>"

text \<open>\<open>!process.env.X\<close> holds for a variable that is unset or empty.\<close>

definition env_set :: "jsstring option \<Rightarrow> bool" where
  "env_set v = (case v of None \<Rightarrow> False | Some s \<Rightarrow> s \<noteq> [])"

subsection \<open>db.ts\<close>

definition connectToDatabase :: "world \<Rightarrow> state \<Rightarrow> (thrown + unit) \<times> state" where
  "connectToDatabase w st =
     (if connected st then (Inr (), st)
      else if \<not> env_set (MONGODB_URI w)
      then (Inl (new_Error (str ''MONGODB_URI environment variable is not set'')), st)
      else (let st1 = log_call Connect st in
            case connect_fault w of
              Some e \<Rightarrow> (Inl e, st1)
            | None \<Rightarrow> (Inr (), st1\<lparr>connected := True\<rparr>)))"

definition createChatMessagesCollection :: "world \<Rightarrow> state \<Rightarrow> (thrown + unit) \<times> state" where
  "createChatMessagesCollection w st =
     (case connectToDatabase w st of
        (Inl e, st1) \<Rightarrow> (Inl e, st1)
      | (Inr u, st1) \<Rightarrow>
          (let st2 = log_call (CreateIndex (str ''created_at'')) st1 in
           case createIndex_fault w (str ''created_at'') of
             Some e \<Rightarrow> (Inl e, st2)
           | None \<Rightarrow>
               (let st3 = log_call (CreateIndex (str ''sender'')) st2 in
                case createIndex_fault w (str ''sender'') of
                  Some e \<Rightarrow> (Inl e, st3)
                | None \<Rightarrow> (Inr (), st3))))"

definition stamp :: "chat_message \<Rightarrow> nat \<Rightarrow> stamped" where
  "stamp msg t =
     \<lparr>sender = sender msg, timestamp = timestamp msg, message = message msg, created_at = t\<rparr>"

definition with_id :: "stamped \<Rightarrow> nat \<Rightarrow> chat_doc" where
  "with_id d i =
     \<lparr>sender = sender d, timestamp = timestamp d, message = message d,
      created_at = created_at d, doc_id = i\<rparr>"

text \<open>
  \<open>insertChatMessages\<close>: each message is stamped with a reading of the clock, in the
  order of the batch; \<open>insertMany\<close> gives the documents fresh ids and appends them;
  \<open>find({_id: {$in: insertedIds}})\<close> reads them back. A driver call that fails leaves
  the collection as it was.
\<close>

definition insertChatMessages ::
  "world \<Rightarrow> state \<Rightarrow> chat_message list \<Rightarrow> (thrown + chat_doc list) \<times> state" where
  "insertChatMessages w st messages =
     (case connectToDatabase w st of
        (Inl e, st1) \<Rightarrow> (Inl e, st1)
      | (Inr u, st1) \<Rightarrow>
          (let n = length messages;
               messagesWithTimestamps =
                 map2 stamp messages (map (now w) [ticks st1 ..< ticks st1 + n]);
               st2 = log_call (InsertMany messagesWithTimestamps) (st1\<lparr>ticks := ticks st1 + n\<rparr>)
           in case insertMany_fault w messagesWithTimestamps of
                Some e \<Rightarrow> (Inl e, st2)
              | None \<Rightarrow>
                  (let insertedIds = [next_id st2 ..< next_id st2 + n];
                       st3 = st2\<lparr>docs := docs st2 @ map2 with_id messagesWithTimestamps insertedIds,
                                 next_id := next_id st2 + n\<rparr>;
                       st4 = log_call (Find insertedIds) st3
                   in case find_fault w of
                        Some e \<Rightarrow> (Inl e, st4)
                      | None \<Rightarrow> (Inr (filter (\<lambda>d. doc_id d \<in> set insertedIds) (docs st4)), st4))))"

section \<open>The upload route\<close>

datatype body =
    Error_Body jsstring "thrown option"
  | Success_Body jsstring "chat_doc list" bool

record response =
  status :: nat
  body :: body

text \<open>
  \<open>NextResponse.json({error}, {status})\<close>, and the success body \<open>{success: true,
  message, data}\<close> with its optional \<open>fallback: true\<close>, status 200.
\<close>

definition json_error :: "nat \<Rightarrow> string \<Rightarrow> response" where
  "json_error code msg = \<lparr>status = code, body = Error_Body (str msg) None\<rparr>"

definition json_success :: "jsstring \<Rightarrow> chat_doc list \<Rightarrow> bool \<Rightarrow> response" where
  "json_success msg data fallback = \<lparr>status = 200, body = Success_Body msg data fallback\<rparr>"

text \<open>The outer \<open>catch\<close> (lines 465 to 475).\<close>

definition catch_all :: "world \<Rightarrow> thrown \<Rightarrow> response" where
  "catch_all w error =
     \<lparr>status = 500,
      body = Error_Body
        (case error of JsError n m \<Rightarrow> m | NonError \<Rightarrow> str ''Internal server error'')
        (if NODE_ENV w = Some (str ''development'') then Some error else None)\<rparr>"

definition models :: "jsstring list" where
  "models = [str ''gpt-3.5-turbo'', str ''gpt-4o-mini'', str ''gpt-4'']"

definition has_text :: "jsstring option \<Rightarrow> bool" where
  "has_text content = (case content of None \<Rightarrow> False | Some t \<Rightarrow> t \<noteq> [])"

text \<open>
  The loop over the candidate models (lines 252 to 318). Every branch of its \<open>catch\<close>
  records the error in \<open>lastError\<close> and goes on with the next model; a call that
  returns non-empty text leaves the loop.
\<close>

fun attempt_models ::
  "world \<Rightarrow> jsstring list \<Rightarrow> jsstring option \<times> thrown option \<times> state \<Rightarrow>
   jsstring option \<times> thrown option \<times> state" where
  "attempt_models w [] (responseText, lastError, st) = (responseText, lastError, st)"
| "attempt_models w (model # rest) (responseText, lastError, st) =
     (let st1 = log_call (Completion model) st in
      case completion w model of
        Returned content \<Rightarrow>
          if has_text content then (content, lastError, st1)
          else attempt_models w rest (content, lastError, st1)
      | Threw error \<Rightarrow> attempt_models w rest (responseText, Some error, st1))"

definition is_abort :: "thrown option \<Rightarrow> bool" where
  "is_abort lastError =
     (case lastError of Some (JsError n m) \<Rightarrow> n = str ''AbortError'' | _ \<Rightarrow> False)"

definition all_failed :: "thrown option \<Rightarrow> thrown" where
  "all_failed lastError =
     (if is_abort lastError
      then new_Error (str ''Request timeout - file processing took too long. Please try with a smaller file.'')
      else new_Error (str ''All models failed. Last error: '' @
        (case lastError of Some (JsError n m) \<Rightarrow> m | _ \<Rightarrow> str ''Unknown error'')))"

text \<open>
  Lines 320 to 347, when no model gave text: the manual parser runs on the file's text;
  its records, if any, are inserted and returned with \<open>fallback: true\<close>. An error of
  the insertion is caught and logged, and the request then fails like one whose file
  gave no record.
\<close>

definition fallback_parsing ::
  "world \<Rightarrow> state \<Rightarrow> jsstring \<Rightarrow> thrown option \<Rightarrow> (thrown + response) \<times> state" where
  "fallback_parsing w st fileContent lastError =
     (let fallbackMessages = parseChatManually fileContent in
      if length fallbackMessages > 0
      then (case insertChatMessages w st fallbackMessages of
              (Inr insertedMessages, st1) \<Rightarrow>
                (Inr (json_success
                   (str ''Successfully processed '' @ show_nat (length insertedMessages) @
                    str '' messages using fallback parsing'')
                   insertedMessages True), st1)
            | (Inl fallbackError, st1) \<Rightarrow> (Inl (all_failed lastError), st1))
      else (Inl (all_failed lastError), st))"

text \<open>
  Lines 349 to 436: the cleaned reply is parsed; when \<open>JSON.parse\<close> throws, the
  recovery scans the raw reply line by line.
\<close>

definition parse_response :: "world \<Rightarrow> state \<Rightarrow> jsstring \<Rightarrow> (thrown + jsvalue) \<times> state" where
  "parse_response w st responseText =
     (let cleanedResponse = sanitize responseText;
          st1 = log_call (JSON_Parse cleanedResponse) st
      in case JSON_parse w cleanedResponse of
           Inr parsedMessages \<Rightarrow> (Inr parsedMessages, st1)
         | Inl parseError \<Rightarrow>
             (let fallbackMessages = recover_lines (split responseText (cu CHR 0x0A)) [] in
              if length fallbackMessages > 0 then (Inr (JArray fallbackMessages), st1)
              else (Inl (new_Error (errorMessage responseText)), st1)))"

text \<open>Lines 349 to 463: parse, validate, insert, answer.\<close>

definition model_path :: "world \<Rightarrow> state \<Rightarrow> jsstring \<Rightarrow> (thrown + response) \<times> state" where
  "model_path w st responseText =
     (case parse_response w st responseText of
        (Inl e, st1) \<Rightarrow> (Inl e, st1)
      | (Inr parsedMessages, st1) \<Rightarrow>
          (case validate_messages parsedMessages of
             Inl e \<Rightarrow> (Inl e, st1)
           | Inr validatedMessages \<Rightarrow>
               (case insertChatMessages w st1 validatedMessages of
                  (Inl e, st2) \<Rightarrow> (Inl e, st2)
                | (Inr insertedMessages, st2) \<Rightarrow>
                    (Inr (json_success
                       (str ''Successfully processed '' @ show_nat (length insertedMessages) @
                        str '' messages'')
                       insertedMessages False), st2))))"

text \<open>Lines 204 to 463, for a file that passed the checks.\<close>

definition process_content :: "world \<Rightarrow> state \<Rightarrow> jsstring \<Rightarrow> (thrown + response) \<times> state" where
  "process_content w st fileContent =
     (case createChatMessagesCollection w st of
        (Inl e, st1) \<Rightarrow> (Inl e, st1)
      | (Inr u, st1) \<Rightarrow>
          (case attempt_models w models (None, None, st1) of
             (responseText, lastError, st2) \<Rightarrow>
               (case responseText of
                  None \<Rightarrow> fallback_parsing w st2 fileContent lastError
                | Some t \<Rightarrow>
                    if t = [] then fallback_parsing w st2 fileContent lastError
                    else model_path w st2 t)))"

definition maxSize :: nat where
  "maxSize = 4 * 1024 * 1024"

text \<open>
  What reading a property of \<open>undefined\<close> throws; the wording of the message is the
  engine's.
\<close>

definition apostrophe :: code_unit where
  "apostrophe = 0x27"

definition undefined_property_error :: "string \<Rightarrow> thrown" where
  "undefined_property_error prop =
     JsError (str ''TypeError'')
       (str ''Cannot read properties of undefined (reading '' @ [apostrophe] @ str prop @
        [apostrophe] @ str '')'')"

text \<open>
  Lines 158 to 202: the form is read and the file is checked. A string in the place of
  the file is falsy when it is empty. Otherwise it has neither \<open>size\<close> nor \<open>name\<close>:
  \<open>undefined > maxSize\<close> is false, so line 171 lets it pass, and
  \<open>file.name.endsWith\<close> at line 179 throws.
\<close>

definition process_upload :: "world \<Rightarrow> state \<Rightarrow> (thrown + response) \<times> state" where
  "process_upload w st =
     (let st1 = log_call FormData st in
      case form_data w of
        Inl e \<Rightarrow> (Inl e, st1)
      | Inr None \<Rightarrow> (Inr (json_error 400 ''No file uploaded''), st1)
      | Inr (Some (String_value s)) \<Rightarrow>
          if s = [] then (Inr (json_error 400 ''No file uploaded''), st1)
          else (Inl (undefined_property_error ''endsWith''), st1)
      | Inr (Some (File_value file)) \<Rightarrow>
          if file_size file > maxSize
          then (Inr (json_error 400 ''File size too large. Maximum size is 4MB.''), st1)
          else if \<not> endsWith (file_name file) (str ''.txt'')
          then (Inr (json_error 400 ''Only .txt files are allowed''), st1)
          else (let fileContent = file_text file in
                if trim fileContent = []
                then (Inr (json_error 400 ''File is empty''), st1)
                else if length fileContent > 50000
                then (Inr (json_error 400
                  ''File content too large. Please use a smaller file (max 50KB).''), st1)
                else process_content w st1 fileContent))"

definition POST :: "world \<Rightarrow> state \<Rightarrow> response \<times> state" where
  "POST w st =
     (if \<not> env_set (OPENAI_API_KEY w)
      then (json_error 500 ''OpenAI API key not configured'', st)
      else if \<not> env_set (MONGODB_URI w)
      then (json_error 500 ''Database connection not configured'', st)
      else (case process_upload w st of
              (Inl error, st1) \<Rightarrow> (catch_all w error, st1)
            | (Inr r, st1) \<Rightarrow> (r, st1)))"

text \<open>
  Lines 136 to 138, the top level of the module: \<open>new OpenAI({apiKey:
  process.env.OPENAI_API_KEY})\<close> runs when the module is loaded, before any request
  reaches the handler. What the constructor throws is not caught.
\<close>

definition load_module :: "world \<Rightarrow> thrown + unit" where
  "load_module w =
     (case new_OpenAI w (OPENAI_API_KEY w) of Some e \<Rightarrow> Inl e | None \<Rightarrow> Inr ())"

text \<open>
  An upload request to the route: the module is loaded, then \<open>POST\<close> answers. When
  loading throws there is no handler and the route gives no answer of its own.
\<close>

definition upload_request :: "world \<Rightarrow> state \<Rightarrow> thrown + response \<times> state" where
  "upload_request w st =
     (case load_module w of Inl e \<Rightarrow> Inl e | Inr u \<Rightarrow> Inr (POST w st))"

section \<open>Notions used to state the properties\<close>

text \<open>A completion call that gives the loop a text to keep.\<close>

definition returns_text :: "attempt \<Rightarrow> bool" where
  "returns_text a = (case a of Threw e \<Rightarrow> False | Returned content \<Rightarrow> has_text content)"

text \<open>The errors thrown by the attempts on a list of models, in order, and the last one.\<close>

definition attempt_errors :: "world \<Rightarrow> jsstring list \<Rightarrow> thrown list" where
  "attempt_errors w ms =
     concat (map (\<lambda>m. case completion w m of Threw e \<Rightarrow> [e] | Returned content \<Rightarrow> []) ms)"

definition last_error :: "world \<Rightarrow> jsstring list \<Rightarrow> thrown option" where
  "last_error w ms =
     (if attempt_errors w ms = [] then None else Some (last (attempt_errors w ms)))"

text \<open>The three fields of a message, read from a message or from a stored document.\<close>

definition fields_of :: "'a chat_message_scheme \<Rightarrow> chat_message" where
  "fields_of d = \<lparr>sender = sender d, timestamp = timestamp d, message = message d\<rparr>"

text \<open>A collection in which every \<open>_id\<close> is below the next fresh one.\<close>

definition ids_fresh :: "state \<Rightarrow> bool" where
  "ids_fresh st = list_all (\<lambda>d. doc_id d < next_id st) (docs st)"

text \<open>
  The checks of the uploaded file, each with the condition under which the route
  rejects the request and the message it answers with; and two orders of the checks,
  the one of the interface description and the one of the route.
\<close>

datatype check = File_present | Extension_txt | Size_ceiling | Non_empty | Length_ceiling

fun fails :: "check \<Rightarrow> upload option \<Rightarrow> bool" where
  "fails File_present f = (f = None)"
| "fails c None = False"
| "fails Extension_txt (Some file) = (\<not> endsWith (file_name file) (str ''.txt''))"
| "fails Size_ceiling (Some file) = (file_size file > maxSize)"
| "fails Non_empty (Some file) = (trim (file_text file) = [])"
| "fails Length_ceiling (Some file) = (length (file_text file) > 50000)"

fun check_error :: "check \<Rightarrow> string" where
  "check_error File_present = ''No file uploaded''"
| "check_error Extension_txt = ''Only .txt files are allowed''"
| "check_error Size_ceiling = ''File size too large. Maximum size is 4MB.''"
| "check_error Non_empty = ''File is empty''"
| "check_error Length_ceiling = ''File content too large. Please use a smaller file (max 50KB).''"

definition first_failure :: "check list \<Rightarrow> upload option \<Rightarrow> check option" where
  "first_failure order f = find (\<lambda>c. fails c f) order"

definition described_order :: "check list" where
  "described_order = [File_present, Extension_txt, Size_ceiling, Non_empty, Length_ceiling]"

definition route_order :: "check list" where
  "route_order = [File_present, Size_ceiling, Extension_txt, Non_empty, Length_ceiling]"

section \<open>Example requests\<close>

text \<open>
  The constructor of the client as the examples have it: it throws when the key is
  \<open>undefined\<close>, that is when the variable is unset.
\<close>

definition missing_key_error :: thrown where
  "missing_key_error =
     JsError (str ''Error'') (str ''The OPENAI_API_KEY environment variable is missing or empty'')"

definition client_constructor :: "jsstring option \<Rightarrow> thrown option" where
  "client_constructor apiKey =
     (case apiKey of None \<Rightarrow> Some missing_key_error | Some key \<Rightarrow> None)"

text \<open>
  An empty collection, and a world in which the driver never fails and the clock reads
  1000, 1001, ... It is given the API key, the uploaded file, the behaviour of the
  completion calls and the result of \<open>JSON.parse\<close>.
\<close>

definition empty_store :: state where
  "empty_store = \<lparr>connected = False, docs = [], next_id = 0, ticks = 0, calls = []\<rparr>"

definition example_world ::
  "jsstring option \<Rightarrow> upload \<Rightarrow> (jsstring \<Rightarrow> attempt) \<Rightarrow> (jsstring \<Rightarrow> thrown + jsvalue) \<Rightarrow> world" where
  "example_world key file answers parser =
     \<lparr>OPENAI_API_KEY = key, MONGODB_URI = Some (str ''mongodb://localhost''), NODE_ENV = None,
      form_data = Inr (Some (File_value file)), new_OpenAI = client_constructor,
      completion = answers, JSON_parse = parser,
      connect_fault = None, createIndex_fault = (\<lambda>k. None), insertMany_fault = (\<lambda>b. None),
      find_fault = None, now = (\<lambda>i. 1000 + i)\<rparr>"

definition txt_file :: "jsstring \<Rightarrow> upload" where
  "txt_file content = \<lparr>file_name = str ''chat.txt'', file_size = length content, file_text = content\<rparr>"

definition timeout_error :: thrown where
  "timeout_error = JsError (str ''AbortError'') (str ''Request was aborted.'')"

definition rate_limit_error :: thrown where
  "rate_limit_error = JsError (str ''Error'') (str ''429 rate limit exceeded'')"

definition syntax_error :: thrown where
  "syntax_error = JsError (str ''SyntaxError'') (str ''Unexpected end of JSON input'')"

text \<open>The reply \<open>"sender": "Bob"\<close>, which is not JSON.\<close>

definition bob_reply :: jsstring where
  "bob_reply = [dquote] @ str ''sender'' @ [dquote] @ str '': '' @ [dquote] @ str ''Bob'' @ [dquote]"

text \<open>The first model times out, the second replies \<open>bob_reply\<close>, the third is not reached.\<close>

definition bob_completion :: "jsstring \<Rightarrow> attempt" where
  "bob_completion model =
     (if model = str ''gpt-3.5-turbo'' then Threw timeout_error
      else if model = str ''gpt-4o-mini'' then Returned (Some bob_reply)
      else Returned (Some (str ''[]'')))"

text \<open>A \<open>JSON.parse\<close> for the examples: it knows \<open>[[]]\<close> and rejects everything else.\<close>

definition parse_nested_empty :: "jsstring \<Rightarrow> thrown + jsvalue" where
  "parse_nested_empty t = (if t = str ''[[]]'' then Inr (JArray [JArray []]) else Inl syntax_error)"

text \<open>A file of 5000000 bytes whose name does not end in \<open>.txt\<close>.\<close>

definition big_pdf :: upload where
  "big_pdf = \<lparr>file_name = str ''chat.pdf'', file_size = 5000000, file_text = str ''Alice: hi''\<rparr>"

text \<open>The line \<open>[10:00] Alice: hi\<close>, which has the shape of formats 1, 2 and 3.\<close>

definition bracket_line :: jsstring where
  "bracket_line = str ''[10:00] Alice: hi''"

text \<open>The parsed element \<open>{sender: "", timestamp: null, message: "hi"}\<close>.\<close>

definition sloppy_record :: jsvalue where
  "sloppy_record =
     JObject [(str ''sender'', JString []), (str ''timestamp'', JNull),
              (str ''message'', JString (str ''hi''))]"

text \<open>The record in which every field has its default.\<close>

definition defaulted :: chat_message where
  "defaulted = \<lparr>sender = JString (str ''Unknown''), timestamp = JString (str ''Unknown''), message = JString []\<rparr>"

text \<open>Requests: the file \<open>big_pdf\<close>; a one-line chat with no API key configured; a chat
  to which the first model replies \<open>[[]]\<close> between spaces.\<close>

definition pdf_world :: world where
  "pdf_world = example_world (Some (str ''sk-test'')) big_pdf (\<lambda>m. Threw timeout_error) (\<lambda>t. Inl syntax_error)"

definition no_key_world :: world where
  "no_key_world = example_world None (txt_file (str ''Alice: Hello there'')) (\<lambda>m. Threw timeout_error) (\<lambda>t. Inl syntax_error)"

definition nested_world :: world where
  "nested_world = example_world (Some (str ''sk-test'')) (txt_file (str ''Alice: Hello there''))
     (\<lambda>m. Returned (Some (str '' [[]] ''))) parse_nested_empty"

text \<open>
  The documents a batch of messages becomes when it is inserted in a given state: each
  message with the next reading of the clock and the next fresh id.
\<close>

definition stored :: "world \<Rightarrow> state \<Rightarrow> chat_message list \<Rightarrow> chat_doc list" where
  "stored w st msgs =
     map2 with_id
       (map2 stamp msgs (map (now w) [ticks st ..< ticks st + length msgs]))
       [next_id st ..< next_id st + length msgs]"

text \<open>No field of the message is \<open>undefined\<close>.\<close>

definition populated :: "'a chat_message_scheme \<Rightarrow> bool" where
  "populated d =
     (sender d \<noteq> JUndefined \<and> timestamp d \<noteq> JUndefined \<and> message d \<noteq> JUndefined)"

text \<open>
  Requests in which every model times out, or every model is rate limited: with the
  one-line chat \<open>Alice: Hello there\<close>, and with a file the manual parser can make
  nothing of.
\<close>

definition alice_file :: upload where
  "alice_file = txt_file (str ''Alice: Hello there'')"

definition noise_file :: upload where
  "noise_file = txt_file (str ''???'')"

definition timeout_world :: "upload \<Rightarrow> world" where
  "timeout_world u =
     example_world (Some (str ''sk-test'')) u (\<lambda>m. Threw timeout_error) (\<lambda>t. Inl syntax_error)"

definition rate_limit_world :: "upload \<Rightarrow> world" where
  "rate_limit_world u =
     example_world (Some (str ''sk-test'')) u (\<lambda>m. Threw rate_limit_error) (\<lambda>t. Inl syntax_error)"

text \<open>The request in which the second model replies \<open>"sender": "Bob"\<close>.\<close>

definition bob_world :: world where
  "bob_world =
     example_world (Some (str ''sk-test'')) alice_file bob_completion (\<lambda>t. Inl syntax_error)"

definition bob_object :: jsvalue where
  "bob_object =
     JObject [(str ''sender'', JString (str ''Bob'')), (str ''timestamp'', JString (str ''Unknown'')),
              (str ''message'', JString [])]"

definition bob_record :: chat_message where
  "bob_record =
     \<lparr>sender = JString (str ''Bob''), timestamp = JString (str ''Unknown''), message = JString []\<rparr>"

text \<open>
  A text in bracket-only form: it begins with \<open>[\<close> and ends with a \<open>]\<close> further on,
  so nothing, neither white space nor a fence, surrounds the brackets.
\<close>

definition bracket_only :: "jsstring \<Rightarrow> bool" where
  "bracket_only s =
     (case s of [] \<Rightarrow> False | x # xs \<Rightarrow> x = cu CHR ''['' \<and> xs \<noteq> [] \<and> last xs = cu CHR '']'')"

text \<open>A reply that is a JSON array and nothing else.\<close>

definition json_reply :: jsstring where
  "json_reply = str ''[{},  {}]''"

text \<open>
  Forms for the checks of the upload: no \<open>file\<close> entry; a small file that is not a
  \<open>.txt\<close>; a blank text file; a text file of 50001 characters; a \<open>file\<close> entry sent
  as text.
\<close>

definition small_pdf :: upload where
  "small_pdf = \<lparr>file_name = str ''chat.pdf'', file_size = 9, file_text = str ''Alice: hi''\<rparr>"

definition form_world :: "form_entry option \<Rightarrow> world" where
  "form_world entry = pdf_world\<lparr>form_data := Inr entry\<rparr>"

definition long_text :: jsstring where
  "long_text = replicate 50001 (cu CHR ''a'')"

text \<open>Requests with the connection string unset, and with the key set but empty.\<close>

definition no_uri_world :: world where
  "no_uri_world = (timeout_world alice_file)\<lparr>MONGODB_URI := None\<rparr>"

definition empty_key_world :: world where
  "empty_key_world = (timeout_world alice_file)\<lparr>OPENAI_API_KEY := Some []\<rparr>"

text \<open>
  A two-line chat, uploaded while every model times out and the clock steps back
  between two readings: 1000, then 999.
\<close>

definition two_line_file :: upload where
  "two_line_file = txt_file (str ''Alice: hi\<newline>Bob: yo'')"

definition backward_clock_world :: world where
  "backward_clock_world = (timeout_world two_line_file)\<lparr>now := (\<lambda>i. 1000 - i)\<rparr>"

section \<open>The manual line parser: priority of the formats\<close>

declare show_nat.simps [simp del]

lemma parse_lines_acc: "parse_lines ls acc = acc @ List.map_filter parse_line ls"
  by (induction ls arbitrary: acc) (simp_all split: option.splits)

lemma match_empty_formats:
  "match [] format1 = None" "match [] format2 = None" "match [] format3 = None"
  by (simp_all add: match_def exec_def exec_at_def format1_def format2_def format3_def)

text \<open>
  C4. The manual parser tries its three formats in order on the trimmed line and the
  first that matches decides the record: format 1 wins whatever formats 2 and 3 would
  give, format 2 wins over format 3, and a line that matches none of them (a blank
  line matches none) gives no record. The parser's result is the list of the records
  of its lines, in line order; nothing in it can fail. On \<open>[10:00] Alice: hi\<close>, which
  format 3 matches too, the record is the one of format 1.
\<close>

theorem manual_parser_priority:
  "(match (trim line) format1 = Some m1 \<longrightarrow>
      parse_line line = Some \<lparr>sender = JString (trim (m1 ! 2)), timestamp = JString (trim (m1 ! 1)),
                              message = JString (trim (m1 ! 3))\<rparr>) \<and>
   (match (trim line) format1 = None \<and> match (trim line) format2 = Some m2 \<longrightarrow>
      parse_line line = Some \<lparr>sender = JString (trim (m2 ! 2)), timestamp = JString (trim (m2 ! 1)),
                              message = JString (trim (m2 ! 3))\<rparr>) \<and>
   (match (trim line) format1 = None \<and> match (trim line) format2 = None \<and>
    match (trim line) format3 = Some m3 \<longrightarrow>
      parse_line line = Some \<lparr>sender = JString (trim (m3 ! 1)), timestamp = JString (str ''Unknown''),
                              message = JString (trim (m3 ! 2))\<rparr>) \<and>
   (match (trim line) format1 = None \<and> match (trim line) format2 = None \<and>
    match (trim line) format3 = None \<longrightarrow> parse_line line = None) \<and>
   parseChatManually content = List.map_filter parse_line (split content (cu CHR 0x0A)) \<and>
   match bracket_line format3 \<noteq> None \<and>
   parseChatManually bracket_line =
     [\<lparr>sender = JString (str ''Alice''), timestamp = JString (str ''10:00''),
       message = JString (str ''hi'')\<rparr>]"
proof -
  have blank: "trim line = [] \<Longrightarrow> match (trim line) format1 = None \<and>
      match (trim line) format2 = None \<and> match (trim line) format3 = None"
    by (simp add: match_empty_formats)
  have p1: "match (trim line) format1 = Some m1 \<longrightarrow>
      parse_line line = Some \<lparr>sender = JString (trim (m1 ! 2)), timestamp = JString (trim (m1 ! 1)),
                              message = JString (trim (m1 ! 3))\<rparr>"
    using blank by (cases "trim line = []") (simp_all add: parse_line_def Let_def)
  have p2: "match (trim line) format1 = None \<and> match (trim line) format2 = Some m2 \<longrightarrow>
      parse_line line = Some \<lparr>sender = JString (trim (m2 ! 2)), timestamp = JString (trim (m2 ! 1)),
                              message = JString (trim (m2 ! 3))\<rparr>"
    using blank by (cases "trim line = []") (simp_all add: parse_line_def Let_def)
  have p3: "match (trim line) format1 = None \<and> match (trim line) format2 = None \<and>
    match (trim line) format3 = Some m3 \<longrightarrow>
      parse_line line = Some \<lparr>sender = JString (trim (m3 ! 1)), timestamp = JString (str ''Unknown''),
                              message = JString (trim (m3 ! 2))\<rparr>"
    using blank by (cases "trim line = []") (simp_all add: parse_line_def Let_def)
  have p4: "match (trim line) format1 = None \<and> match (trim line) format2 = None \<and>
    match (trim line) format3 = None \<longrightarrow> parse_line line = None"
    by (simp add: parse_line_def Let_def)
  have p5: "parseChatManually content = List.map_filter parse_line (split content (cu CHR 0x0A))"
    by (simp add: parseChatManually_def parse_lines_acc)
  have p6: "match bracket_line format3 \<noteq> None"
    by code_simp
  have p7: "parseChatManually bracket_line =
     [\<lparr>sender = JString (str ''Alice''), timestamp = JString (str ''10:00''),
       message = JString (str ''hi'')\<rparr>]"
    by code_simp
  from p1 p2 p3 p4 p5 p6 p7 show ?thesis by blast
qed

theorem manual_parser_priority_witness:
  "match (trim bracket_line) format1 = Some [bracket_line, str ''10:00'', str ''Alice'', str ''hi''] \<and>
   match (trim bracket_line) format3 = Some [bracket_line, str ''[10'', str ''00] Alice: hi''] \<and>
   parse_line bracket_line =
     Some \<lparr>sender = JString (str ''Alice''), timestamp = JString (str ''10:00''),
           message = JString (str ''hi'')\<rparr> \<and>
   match (trim (str ''???'')) format1 = None \<and> match (trim (str ''???'')) format2 = None \<and>
   match (trim (str ''???'')) format3 = None \<and> parse_line (str ''???'') = None \<and>
   parseChatManually (bracket_line @ str ''\<newline>???\<newline>Bob: yo'') =
     [\<lparr>sender = JString (str ''Alice''), timestamp = JString (str ''10:00''), message = JString (str ''hi'')\<rparr>,
      \<lparr>sender = JString (str ''Bob''), timestamp = JString (str ''Unknown''), message = JString (str ''yo'')\<rparr>]"
proof -
  have m1: "match (trim bracket_line) format1 = Some [bracket_line, str ''10:00'', str ''Alice'', str ''hi'']"
    by code_simp
  have m3: "match (trim bracket_line) format3 = Some [bracket_line, str ''[10'', str ''00] Alice: hi'']"
    by code_simp
  have t: "trim (str ''10:00'') = str ''10:00''"  "trim (str ''Alice'') = str ''Alice''"
    "trim (str ''hi'') = str ''hi''"
    by code_simp+
  have q: "match (trim (str ''???'')) format1 = None" "match (trim (str ''???'')) format2 = None"
    "match (trim (str ''???'')) format3 = None"
    by code_simp+
  from manual_parser_priority[of bracket_line "[bracket_line, str ''10:00'', str ''Alice'', str ''hi'']"] m1
  have a: "parse_line bracket_line =
     Some \<lparr>sender = JString (str ''Alice''), timestamp = JString (str ''10:00''),
           message = JString (str ''hi'')\<rparr>" by (simp add: t)
  from manual_parser_priority[of "str ''???''"] q
  have b: "parse_line (str ''???'') = None" by simp
  have c: "parseChatManually (bracket_line @ str ''\<newline>???\<newline>Bob: yo'') =
     [\<lparr>sender = JString (str ''Alice''), timestamp = JString (str ''10:00''), message = JString (str ''hi'')\<rparr>,
      \<lparr>sender = JString (str ''Bob''), timestamp = JString (str ''Unknown''), message = JString (str ''yo'')\<rparr>]"
    by code_simp
  from a b c m1 m3 q show ?thesis by simp
qed

section \<open>Validation and normalization\<close>

lemma invalid_element_iff: "invalid_element msg \<longleftrightarrow> (msg = JNull \<or> typeof msg \<noteq> str ''object'')"
  by (cases msg rule: truthy.cases) (simp_all add: invalid_element_def str_def)

lemma validate_from_first_invalid:
  "i < length xs \<Longrightarrow> invalid_element (xs ! i) \<Longrightarrow> (\<forall>j<i. \<not> invalid_element (xs ! j)) \<Longrightarrow>
   validate_from k xs = Inl (new_Error (str ''Invalid message at index '' @ show_nat (k + i)))"
proof (induction xs arbitrary: i k)
  case Nil
  then show ?case by simp
next
  case (Cons x xs)
  show ?case
  proof (cases i)
    case 0
    with Cons.prems show ?thesis by simp
  next
    case (Suc i')
    from Cons.prems Suc have x: "\<not> invalid_element x" by auto
    from Cons.prems Suc have "i' < length xs" "invalid_element (xs ! i')" "\<forall>j<i'. \<not> invalid_element (xs ! j)"
      by auto
    from Cons.IH[OF this, of "Suc k"] x Suc show ?thesis by simp
  qed
qed

lemma validate_from_all_valid:
  "(\<forall>x\<in>set xs. \<not> invalid_element x) \<Longrightarrow> validate_from k xs = Inr (map normalize_message xs)"
  by (induction xs arbitrary: k) simp_all

text \<open>
  C5. A parsed result that is not an array is rejected with \<open>Expected an array of
  messages\<close>. An element is rejected exactly when it is null or not of type object, and
  the error names the index of the first such element. When no element is rejected, the
  result is the list of the normalized elements, in order: in each, a falsy sender or
  timestamp has become \<open>Unknown\<close> and a falsy message the empty string, and a truthy
  value is kept. \<open>{sender: "", timestamp: null, message: "hi"}\<close> becomes
  \<open>{sender: "Unknown", timestamp: "Unknown", message: "hi"}\<close>.
\<close>

theorem validation_and_normalization:
  "(\<not> isArray parsed \<longrightarrow>
      validate_messages parsed = Inl (new_Error (str ''Expected an array of messages''))) \<and>
   (invalid_element msg \<longleftrightarrow> msg = JNull \<or> typeof msg \<noteq> str ''object'') \<and>
   (i < length elements \<and> invalid_element (elements ! i) \<and>
    (\<forall>j<i. \<not> invalid_element (elements ! j)) \<longrightarrow>
      validate_messages (JArray elements) =
        Inl (new_Error (str ''Invalid message at index '' @ show_nat i))) \<and>
   ((\<forall>e\<in>set elements. \<not> invalid_element e) \<longrightarrow>
      validate_messages (JArray elements) = Inr (map normalize_message elements)) \<and>
   sender (normalize_message msg) =
     (if truthy (get_prop msg (str ''sender'')) then get_prop msg (str ''sender'')
      else JString (str ''Unknown'')) \<and>
   timestamp (normalize_message msg) =
     (if truthy (get_prop msg (str ''timestamp'')) then get_prop msg (str ''timestamp'')
      else JString (str ''Unknown'')) \<and>
   message (normalize_message msg) =
     (if truthy (get_prop msg (str ''message'')) then get_prop msg (str ''message'')
      else JString []) \<and>
   normalize_message sloppy_record =
     \<lparr>sender = JString (str ''Unknown''), timestamp = JString (str ''Unknown''),
      message = JString (str ''hi'')\<rparr>"
proof -
  have a: "\<not> isArray parsed \<longrightarrow>
      validate_messages parsed = Inl (new_Error (str ''Expected an array of messages''))"
    by (cases parsed) (simp_all add: validate_messages_def)
  have b: "i < length elements \<and> invalid_element (elements ! i) \<and>
    (\<forall>j<i. \<not> invalid_element (elements ! j)) \<longrightarrow>
      validate_messages (JArray elements) =
        Inl (new_Error (str ''Invalid message at index '' @ show_nat i))"
    using validate_from_first_invalid[of i elements 0] by (simp add: validate_messages_def)
  have c: "(\<forall>e\<in>set elements. \<not> invalid_element e) \<longrightarrow>
      validate_messages (JArray elements) = Inr (map normalize_message elements)"
    by (simp add: validate_messages_def validate_from_all_valid)
  have d: "normalize_message sloppy_record =
     \<lparr>sender = JString (str ''Unknown''), timestamp = JString (str ''Unknown''),
      message = JString (str ''hi'')\<rparr>"
    by (simp add: sloppy_record_def normalize_message_def or_else_def str_def)
  from a b c d invalid_element_iff[of msg] show ?thesis
    by (simp add: normalize_message_def or_else_def)
qed

theorem validation_and_normalization_witness:
  "\<not> isArray (JObject []) \<and>
   validate_messages (JObject []) = Inl (new_Error (str ''Expected an array of messages'')) \<and>
   validate_messages (JArray [sloppy_record, JString (str ''x''), JNull]) =
     Inl (new_Error (str ''Invalid message at index 1'')) \<and>
   validate_messages (JArray [sloppy_record]) =
     Inr [\<lparr>sender = JString (str ''Unknown''), timestamp = JString (str ''Unknown''),
           message = JString (str ''hi'')\<rparr>]"
proof -
  have v: "\<not> invalid_element sloppy_record" "invalid_element (JString (str ''x''))"
    by (simp_all add: invalid_element_def sloppy_record_def str_def)
  have s: "show_nat 1 = str ''1''"
    by code_simp
  from validation_and_normalization[of "JObject []"]
  have a: "validate_messages (JObject []) = Inl (new_Error (str ''Expected an array of messages''))"
    by simp
  from validation_and_normalization[of _ _ 1 "[sloppy_record, JString (str ''x''), JNull]"] v
  have b: "validate_messages (JArray [sloppy_record, JString (str ''x''), JNull]) =
     Inl (new_Error (str ''Invalid message at index '' @ show_nat 1))"
    by simp
  from validation_and_normalization[of _ _ _ "[sloppy_record]"] v
  have c: "validate_messages (JArray [sloppy_record]) = Inr [normalize_message sloppy_record]"
    by simp
  from validation_and_normalization[of JNull JNull 0 "[]"]
  have d: "normalize_message sloppy_record =
     \<lparr>sender = JString (str ''Unknown''), timestamp = JString (str ''Unknown''),
      message = JString (str ''hi'')\<rparr>"
    by blast
  have e: "str ''Invalid message at index '' @ str ''1'' = str ''Invalid message at index 1''"
    by (simp add: str_def)
  from a b c d e s show ?thesis by simp
qed

section \<open>Configuration and validation of the upload\<close>

lemma pdf_world_ok:
  "env_set (OPENAI_API_KEY (form_world entry))" "env_set (MONGODB_URI (form_world entry))"
  "form_data (form_world entry) = Inr entry" "NODE_ENV (form_world entry) = None"
  "env_set (OPENAI_API_KEY pdf_world)" "env_set (MONGODB_URI pdf_world)"
  "form_data pdf_world = Inr (Some (File_value big_pdf))"
  by (simp_all add: form_world_def pdf_world_def example_world_def env_set_def str_def)

lemma long_text_ok: "trim long_text \<noteq> []" "length long_text = 50001"
proof -
  have "\<not> is_ws (cu CHR ''a'')" by (simp add: is_ws_def cu_def)
  then have "trim (replicate n (cu CHR ''a'')) = replicate n (cu CHR ''a'')" for n
    by (simp add: trim_def dropWhile_replicate)
  then show "trim long_text \<noteq> []"
    unfolding long_text_def by (simp only: replicate_empty)
  show "length long_text = 50001"
    unfolding long_text_def by (simp only: length_replicate)
qed

text \<open>
  C8. The handler answers an unset or empty key, and then an unset or empty connection
  string, with status 500 and an error body before it reads the form: the answer is
  the same whatever the form holds, and no call is made. But a request reaches the
  handler only when the module has loaded. When the constructor of the client throws
  on the key it is given, the request gets that error and no answer from the handler.
  When the constructor returns, the request gets the configuration error, status 500,
  with the state unchanged.
\<close>

theorem configuration_errors:
  "(new_OpenAI w (OPENAI_API_KEY w) = Some e \<longrightarrow> upload_request w st = Inl e) \<and>
   (new_OpenAI w (OPENAI_API_KEY w) = None \<and> \<not> env_set (OPENAI_API_KEY w) \<longrightarrow>
      upload_request w st =
        Inr (\<lparr>status = 500, body = Error_Body (str ''OpenAI API key not configured'') None\<rparr>, st)) \<and>
   (new_OpenAI w (OPENAI_API_KEY w) = None \<and> env_set (OPENAI_API_KEY w) \<and>
    \<not> env_set (MONGODB_URI w) \<longrightarrow>
      upload_request w st =
        Inr (\<lparr>status = 500, body = Error_Body (str ''Database connection not configured'') None\<rparr>,
             st)) \<and>
   (\<not> env_set (OPENAI_API_KEY w) \<or> \<not> env_set (MONGODB_URI w) \<longrightarrow>
      POST (w\<lparr>form_data := fd\<rparr>) st = POST w st)"
  by (simp add: upload_request_def load_module_def POST_def json_error_def)

theorem configuration_errors_witness:
  "OPENAI_API_KEY no_key_world = None \<and>
   form_data no_key_world = Inr (Some (File_value (txt_file (str ''Alice: Hello there'')))) \<and>
   new_OpenAI no_key_world None = Some missing_key_error \<and>
   upload_request no_key_world empty_store = Inl missing_key_error \<and>
   POST no_key_world empty_store =
     (\<lparr>status = 500, body = Error_Body (str ''OpenAI API key not configured'') None\<rparr>,
      empty_store) \<and>
   upload_request empty_key_world empty_store =
     Inr (\<lparr>status = 500, body = Error_Body (str ''OpenAI API key not configured'') None\<rparr>,
          empty_store) \<and>
   upload_request no_uri_world empty_store =
     Inr (\<lparr>status = 500, body = Error_Body (str ''Database connection not configured'') None\<rparr>,
          empty_store)"
proof -
  have k: "OPENAI_API_KEY no_key_world = None"
    "form_data no_key_world = Inr (Some (File_value (txt_file (str ''Alice: Hello there''))))"
    "new_OpenAI no_key_world None = Some missing_key_error"
    by (simp_all add: no_key_world_def example_world_def client_constructor_def)
  have e: "new_OpenAI empty_key_world (OPENAI_API_KEY empty_key_world) = None"
    "\<not> env_set (OPENAI_API_KEY empty_key_world)"
    by (simp_all add: empty_key_world_def timeout_world_def example_world_def
        client_constructor_def env_set_def)
  have u: "new_OpenAI no_uri_world (OPENAI_API_KEY no_uri_world) = None"
    "env_set (OPENAI_API_KEY no_uri_world)" "\<not> env_set (MONGODB_URI no_uri_world)"
    by (simp_all add: no_uri_world_def timeout_world_def example_world_def
        client_constructor_def env_set_def str_def)
  have a: "upload_request no_key_world empty_store = Inl missing_key_error"
    using configuration_errors[of no_key_world missing_key_error empty_store] k by simp
  have b: "POST no_key_world empty_store =
     (\<lparr>status = 500, body = Error_Body (str ''OpenAI API key not configured'') None\<rparr>,
      empty_store)"
    using k by (simp add: POST_def env_set_def json_error_def)
  have c: "upload_request empty_key_world empty_store =
     Inr (\<lparr>status = 500, body = Error_Body (str ''OpenAI API key not configured'') None\<rparr>,
          empty_store)"
    using configuration_errors[of empty_key_world _ empty_store] e by simp
  have d: "upload_request no_uri_world empty_store =
     Inr (\<lparr>status = 500, body = Error_Body (str ''Database connection not configured'') None\<rparr>,
          empty_store)"
    using configuration_errors[of no_uri_world _ empty_store] u by simp
  from k a b c d show ?thesis by simp
qed

text \<open>
  C7, as described: file present, extension, size, emptiness, length. For a file of
  5000000 bytes named \<open>chat.pdf\<close> the first failing check in that order is the
  extension, but the route answers with the error of the size check.
\<close>

theorem described_order_counterexample:
  "env_set (OPENAI_API_KEY pdf_world) \<and> env_set (MONGODB_URI pdf_world) \<and>
   form_data pdf_world = Inr (Some (File_value big_pdf)) \<and>
   first_failure described_order (Some big_pdf) = Some Extension_txt \<and>
   fst (POST pdf_world empty_store) =
     \<lparr>status = 400, body = Error_Body (str ''File size too large. Maximum size is 4MB.'') None\<rparr> \<and>
   fst (POST pdf_world empty_store) \<noteq>
     \<lparr>status = 400, body = Error_Body (str ''Only .txt files are allowed'') None\<rparr>"
proof -
  have b: "\<not> endsWith (file_name big_pdf) (str ''.txt'')" "file_size big_pdf > maxSize"
    by (simp_all add: big_pdf_def endsWith_def str_def maxSize_def)
  have c: "first_failure described_order (Some big_pdf) = Some Extension_txt"
    using b by (simp add: first_failure_def described_order_def)
  have d: "fst (POST pdf_world empty_store) =
     \<lparr>status = 400, body = Error_Body (str ''File size too large. Maximum size is 4MB.'') None\<rparr>"
    using b by (simp add: POST_def process_upload_def pdf_world_ok json_error_def)
  have e: "str ''File size too large. Maximum size is 4MB.'' \<noteq> str ''Only .txt files are allowed''"
    by (simp add: str_def)
  from c d e show ?thesis by (simp add: pdf_world_ok)
qed

text \<open>
  C7, as the route does it: with both variables configured, for a form whose \<open>file\<close>
  entry is a file or is missing, the checks are made in the order file present, size
  (at most 4 MB), extension \<open>.txt\<close>, content not blank, content of at most 50000 code
  units. The first check that fails answers with a 4xx status, 400, and a body that
  holds its error message, after the single call that read the form; when none fails
  the file's text is processed.
\<close>

theorem validation_order:
  assumes "env_set (OPENAI_API_KEY w)" and "env_set (MONGODB_URI w)"
    and "form_data w = Inr (map_option File_value f)"
  shows "(first_failure route_order f = Some c \<longrightarrow>
            POST w st =
              (\<lparr>status = 400, body = Error_Body (str (check_error c)) None\<rparr>,
               log_call FormData st)) \<and>
         (first_failure route_order f = None \<longrightarrow>
            (\<exists>u. f = Some u \<and>
               POST w st =
                 (case process_content w (log_call FormData st) (file_text u) of
                    (Inl e, st1) \<Rightarrow> (catch_all w e, st1)
                  | (Inr r, st1) \<Rightarrow> (r, st1))))"
proof (cases f)
  case None
  with assms show ?thesis
    by (auto simp: POST_def process_upload_def first_failure_def route_order_def json_error_def)
next
  case (Some u)
  with assms show ?thesis
    by (auto simp: POST_def process_upload_def first_failure_def route_order_def Let_def
        json_error_def)
qed

theorem validation_order_witness:
  "POST (form_world None) empty_store =
     (\<lparr>status = 400, body = Error_Body (str ''No file uploaded'') None\<rparr>,
      log_call FormData empty_store) \<and>
   POST (form_world (Some (File_value big_pdf))) empty_store =
     (\<lparr>status = 400, body = Error_Body (str ''File size too large. Maximum size is 4MB.'') None\<rparr>,
      log_call FormData empty_store) \<and>
   POST (form_world (Some (File_value small_pdf))) empty_store =
     (\<lparr>status = 400, body = Error_Body (str ''Only .txt files are allowed'') None\<rparr>,
      log_call FormData empty_store) \<and>
   POST (form_world (Some (File_value (txt_file (str ''   ''))))) empty_store =
     (\<lparr>status = 400, body = Error_Body (str ''File is empty'') None\<rparr>,
      log_call FormData empty_store) \<and>
   POST (form_world (Some (File_value (txt_file long_text)))) empty_store =
     (\<lparr>status = 400, body = Error_Body
        (str ''File content too large. Please use a smaller file (max 50KB).'') None\<rparr>,
      log_call FormData empty_store)"
proof -
  have f1: "first_failure route_order None = Some File_present"
    by (simp add: first_failure_def route_order_def)
  have f2: "first_failure route_order (Some big_pdf) = Some Size_ceiling"
    by (simp add: first_failure_def route_order_def big_pdf_def maxSize_def)
  have f3: "first_failure route_order (Some small_pdf) = Some Extension_txt"
    by (simp add: first_failure_def route_order_def small_pdf_def maxSize_def endsWith_def str_def)
  have blank: "trim (str ''   '') = []"
    by code_simp
  have f4: "first_failure route_order (Some (txt_file (str ''   ''))) = Some Non_empty"
    by (simp add: first_failure_def route_order_def txt_file_def maxSize_def endsWith_def blank)
      (simp add: str_def)
  have f5: "first_failure route_order (Some (txt_file long_text)) = Some Length_ceiling"
    by (simp add: first_failure_def route_order_def txt_file_def maxSize_def endsWith_def
        long_text_ok)
      (simp add: str_def)
  note v = validation_order[OF pdf_world_ok(1) pdf_world_ok(2)]
  have a1: "POST (form_world None) empty_store =
     (\<lparr>status = 400, body = Error_Body (str ''No file uploaded'') None\<rparr>,
      log_call FormData empty_store)"
    using v[of None None File_present empty_store] f1 by (simp add: pdf_world_ok)
  have a2: "POST (form_world (Some (File_value big_pdf))) empty_store =
     (\<lparr>status = 400, body = Error_Body (str ''File size too large. Maximum size is 4MB.'') None\<rparr>,
      log_call FormData empty_store)"
    using v[of "Some (File_value big_pdf)" "Some big_pdf" Size_ceiling empty_store] f2
    by (simp add: pdf_world_ok)
  have a3: "POST (form_world (Some (File_value small_pdf))) empty_store =
     (\<lparr>status = 400, body = Error_Body (str ''Only .txt files are allowed'') None\<rparr>,
      log_call FormData empty_store)"
    using v[of "Some (File_value small_pdf)" "Some small_pdf" Extension_txt empty_store] f3
    by (simp add: pdf_world_ok)
  have a4: "POST (form_world (Some (File_value (txt_file (str ''   ''))))) empty_store =
     (\<lparr>status = 400, body = Error_Body (str ''File is empty'') None\<rparr>,
      log_call FormData empty_store)"
    using v[of "Some (File_value (txt_file (str ''   '')))" "Some (txt_file (str ''   ''))"
        Non_empty empty_store] f4
    by (simp add: pdf_world_ok)
  have a5: "POST (form_world (Some (File_value (txt_file long_text)))) empty_store =
     (\<lparr>status = 400, body = Error_Body
        (str ''File content too large. Please use a smaller file (max 50KB).'') None\<rparr>,
      log_call FormData empty_store)"
    using v[of "Some (File_value (txt_file long_text))" "Some (txt_file long_text)"
        Length_ceiling empty_store] f5
    by (simp add: pdf_world_ok)
  from a1 a2 a3 a4 a5 show ?thesis by simp
qed

text \<open>
  A \<open>file\<close> entry sent as non-empty text is outside that order: line 179 throws on it
  and the outer \<open>catch\<close> answers 500.
\<close>

lemma text_entry_throws:
  "POST (form_world (Some (String_value (str ''hello'')))) empty_store =
     (\<lparr>status = 500, body = Error_Body
        (str ''Cannot read properties of undefined (reading '' @ [apostrophe] @
         str ''endsWith'' @ [apostrophe] @ str '')'') None\<rparr>,
      log_call FormData empty_store)"
  by (simp add: POST_def process_upload_def pdf_world_ok catch_all_def
      undefined_property_error_def str_def[of "''hello''"])

section \<open>The store, the loop over the models and the fallback\<close>

subsection \<open>stored\<close>

lemma stamp_with_id_fields:
  "length ts = length msgs \<Longrightarrow> length ids = length msgs \<Longrightarrow>
   map fields_of (map2 with_id (map2 stamp msgs ts) ids) = msgs \<and>
   map created_at (map2 with_id (map2 stamp msgs ts) ids) = ts \<and>
   map doc_id (map2 with_id (map2 stamp msgs ts) ids) = ids"
proof (induction msgs arbitrary: ts ids)
  case Nil
  then show ?case by simp
next
  case (Cons m msgs)
  then obtain t ts' i ids' where "ts = t # ts'" "ids = i # ids'"
    by (cases ts; cases ids) auto
  with Cons show ?case
    by (simp add: fields_of_def with_id_def stamp_def)
qed

lemma stored_props:
  "map fields_of (stored w st msgs) = msgs"
  "map created_at (stored w st msgs) = map (now w) [ticks st ..< ticks st + length msgs]"
  "map doc_id (stored w st msgs) = [next_id st ..< next_id st + length msgs]"
  "length (stored w st msgs) = length msgs"
  using stamp_with_id_fields[of "map (now w) [ticks st ..< ticks st + length msgs]" msgs
      "[next_id st ..< next_id st + length msgs]"]
  by (simp_all add: stored_def)

lemma stored_fields:
  "map sender (stored w st msgs) = map sender msgs"
  "map timestamp (stored w st msgs) = map timestamp msgs"
  "map message (stored w st msgs) = map message msgs"
proof -
  have "map sender (map fields_of (stored w st msgs)) = map sender msgs"
    "map timestamp (map fields_of (stored w st msgs)) = map timestamp msgs"
    "map message (map fields_of (stored w st msgs)) = map message msgs"
    by (simp_all only: stored_props)
  then show "map sender (stored w st msgs) = map sender msgs"
    "map timestamp (stored w st msgs) = map timestamp msgs"
    "map message (stored w st msgs) = map message msgs"
    by (simp_all add: fields_of_def o_def)
qed

lemma find_inserted:
  assumes "list_all (\<lambda>d. doc_id d < n) old" and "map doc_id new = [n ..< n + k]"
  shows "filter (\<lambda>d. doc_id d \<in> set [n ..< n + k]) (old @ new) = new"
proof -
  have "filter (\<lambda>d. doc_id d \<in> set [n ..< n + k]) old = []"
    using assms(1) by (induction old) auto
  moreover have "\<forall>d\<in>set new. doc_id d \<in> set [n ..< n + k]"
  proof
    fix d assume "d \<in> set new"
    then have "doc_id d \<in> set (map doc_id new)" by simp
    then show "doc_id d \<in> set [n ..< n + k]" by (simp only: assms(2))
  qed
  then have "filter (\<lambda>d. doc_id d \<in> set [n ..< n + k]) new = new"
    by (simp only: filter_True)
  ultimately show ?thesis by simp
qed

subsection \<open>db.ts\<close>

lemma connectToDatabase_frame:
  "connectToDatabase w st = (r, st') \<Longrightarrow>
   docs st' = docs st \<and> next_id st' = next_id st \<and> ticks st' = ticks st"
  by (auto simp: connectToDatabase_def log_call_def Let_def split: if_splits option.splits)

lemma connectToDatabase_ok:
  "env_set (MONGODB_URI w) \<Longrightarrow> connect_fault w = None \<Longrightarrow>
   connectToDatabase w st =
     (Inr (), st\<lparr>connected := True, calls := calls st @ (if connected st then [] else [Connect])\<rparr>)"
  by (simp add: connectToDatabase_def log_call_def)

lemma createChatMessagesCollection_frame:
  "createChatMessagesCollection w st = (r, st') \<Longrightarrow>
   docs st' = docs st \<and> next_id st' = next_id st \<and> ticks st' = ticks st"
  by (auto simp: createChatMessagesCollection_def log_call_def Let_def
      dest: connectToDatabase_frame split: prod.splits sum.splits option.splits)

lemma createChatMessagesCollection_ok:
  "env_set (MONGODB_URI w) \<Longrightarrow> connect_fault w = None \<Longrightarrow> \<forall>k. createIndex_fault w k = None \<Longrightarrow>
   createChatMessagesCollection w st =
     (Inr (), st\<lparr>connected := True,
                 calls := calls st @ (if connected st then [] else [Connect]) @
                   [CreateIndex (str ''created_at''), CreateIndex (str ''sender'')]\<rparr>)"
  by (simp add: createChatMessagesCollection_def connectToDatabase_ok log_call_def)

lemma insertChatMessages_docs:
  "docs (snd (insertChatMessages w st msgs)) = docs st \<or>
   docs (snd (insertChatMessages w st msgs)) = docs st @ stored w st msgs"
proof (cases "connectToDatabase w st")
  case (Pair r st1)
  from connectToDatabase_frame[OF Pair]
  have f: "docs st1 = docs st" "next_id st1 = next_id st" "ticks st1 = ticks st" by simp_all
  show ?thesis
    using Pair f
    by (cases r)
      (simp_all add: insertChatMessages_def stored_def log_call_def Let_def split: option.splits)
qed

lemma insertChatMessages_ok:
  assumes "env_set (MONGODB_URI w)" and "connect_fault w = None"
    and "\<forall>b. insertMany_fault w b = None" and "find_fault w = None" and "ids_fresh st"
  shows "insertChatMessages w st msgs =
    (Inr (stored w st msgs),
     st\<lparr>connected := True, docs := docs st @ stored w st msgs,
        next_id := next_id st + length msgs, ticks := ticks st + length msgs,
        calls := calls st @ (if connected st then [] else [Connect]) @
          [InsertMany (map2 stamp msgs (map (now w) [ticks st ..< ticks st + length msgs])),
           Find [next_id st ..< next_id st + length msgs]]\<rparr>)"
proof -
  have "filter (\<lambda>d. doc_id d \<in> set [next_id st ..< next_id st + length msgs])
          (docs st @ stored w st msgs) = stored w st msgs"
    using assms(5) by (intro find_inserted) (simp_all add: ids_fresh_def stored_props)
  then show ?thesis
    using assms(1-4)
    by (simp add: insertChatMessages_def connectToDatabase_ok log_call_def Let_def stored_def)
qed

subsection \<open>The loop over the models\<close>

lemma attempt_errors_Cons:
  "attempt_errors w (m # ms) =
     (case completion w m of Threw e \<Rightarrow> [e] | Returned content \<Rightarrow> []) @ attempt_errors w ms"
  by (simp add: attempt_errors_def)

lemma attempt_models_no_text:
  assumes "\<forall>m\<in>set ms. \<not> returns_text (completion w m)" and "\<not> has_text rt"
  shows "\<exists>rt'. \<not> has_text rt' \<and>
    attempt_models w ms (rt, le, st) =
      (rt', (if attempt_errors w ms = [] then le else Some (last (attempt_errors w ms))),
       st\<lparr>calls := calls st @ map Completion ms\<rparr>)"
  using assms
proof (induction ms arbitrary: rt le st)
  case Nil
  then show ?case by (simp add: attempt_errors_def)
next
  case (Cons m ms)
  from Cons.prems have rest: "\<forall>m\<in>set ms. \<not> returns_text (completion w m)" by simp
  show ?case
  proof (cases "completion w m")
    case (Threw e)
    from Cons.IH[OF rest Cons.prems(2), of "Some e" "log_call (Completion m) st"]
    show ?thesis using Threw
      by (auto simp: attempt_errors_Cons log_call_def)
  next
    case (Returned content)
    with Cons.prems have c: "\<not> has_text content" by (simp add: returns_text_def)
    from Cons.IH[OF rest c, of le "log_call (Completion m) st"]
    show ?thesis using Returned c
      by (auto simp: attempt_errors_Cons log_call_def)
  qed
qed

lemma attempt_models_first_text:
  assumes "\<forall>m\<in>set pre. \<not> returns_text (completion w m)"
    and "completion w m = Returned (Some t)" and "t \<noteq> []"
  shows "attempt_models w (pre @ m # post) (rt, le, st) =
      (Some t, (if attempt_errors w pre = [] then le else Some (last (attempt_errors w pre))),
       st\<lparr>calls := calls st @ map Completion (pre @ [m])\<rparr>)"
  using assms(1)
proof (induction pre arbitrary: rt le st)
  case Nil
  then show ?case using assms(2,3) by (simp add: attempt_errors_def has_text_def log_call_def)
next
  case (Cons x pre)
  from Cons.prems have rest: "\<forall>m\<in>set pre. \<not> returns_text (completion w m)" by simp
  show ?case
  proof (cases "completion w x")
    case (Threw e)
    from Cons.IH[OF rest, of rt "Some e" "log_call (Completion x) st"]
    show ?thesis using Threw
      by (auto simp: attempt_errors_Cons log_call_def)
  next
    case (Returned content)
    with Cons.prems have c: "\<not> has_text content" by (simp add: returns_text_def)
    from Cons.IH[OF rest, of content le "log_call (Completion x) st"]
    show ?thesis using Returned c
      by (auto simp: attempt_errors_Cons log_call_def)
  qed
qed

subsection \<open>The route when no model gives text\<close>

lemma restamp:
  "length xs = length ids \<Longrightarrow>
   map (\<lambda>d. stamp (fields_of d) (created_at d)) (map2 with_id xs ids) = xs"
  by (induction xs ids rule: list_induct2) (simp_all add: with_id_def stamp_def fields_of_def)

lemma stored_cong:
  "ticks st' = ticks st \<Longrightarrow> next_id st' = next_id st \<Longrightarrow> stored w st' msgs = stored w st msgs"
  by (simp add: stored_def)

lemma process_content_no_text:
  assumes "env_set (MONGODB_URI w)" and "connect_fault w = None"
    and "\<forall>k. createIndex_fault w k = None"
    and "\<forall>m\<in>set models. \<not> returns_text (completion w m)"
  shows "process_content w st fileContent =
     fallback_parsing w
       (st\<lparr>connected := True,
           calls := calls st @ (if connected st then [] else [Connect]) @
             [CreateIndex (str ''created_at''), CreateIndex (str ''sender'')] @
             map Completion models\<rparr>)
       fileContent (last_error w models)"
proof -
  let ?st1 = "st\<lparr>connected := True,
                 calls := calls st @ (if connected st then [] else [Connect]) @
                   [CreateIndex (str ''created_at''), CreateIndex (str ''sender'')]\<rparr>"
  have "\<not> has_text None" by (simp add: has_text_def)
  from attempt_models_no_text[OF assms(4) this, of None ?st1]
  obtain rt' where rt: "\<not> has_text rt'"
    and loop: "attempt_models w models (None, None, ?st1) =
      (rt', last_error w models, ?st1\<lparr>calls := calls ?st1 @ map Completion models\<rparr>)"
    by (auto simp: last_error_def)
  from rt have "rt' = None \<or> rt' = Some []"
    by (cases rt') (simp_all add: has_text_def)
  then show ?thesis
    using assms(1-3) loop
    by (auto simp: process_content_def createChatMessagesCollection_ok)
qed

lemma POST_valid_file:
  assumes "env_set (OPENAI_API_KEY w)" and "env_set (MONGODB_URI w)"
    and "form_data w = Inr (Some (File_value u))"
    and "file_size u \<le> maxSize" and "endsWith (file_name u) (str ''.txt'')"
    and "trim (file_text u) \<noteq> []" and "length (file_text u) \<le> 50000"
  shows "POST w st =
     (case process_content w (st\<lparr>calls := calls st @ [FormData]\<rparr>) (file_text u) of
        (Inl e, st1) \<Rightarrow> (catch_all w e, st1)
      | (Inr r, st1) \<Rightarrow> (r, st1))"
  using assms by (simp add: POST_def process_upload_def log_call_def Let_def)

lemma POST_manual_fallback:
  assumes "env_set (OPENAI_API_KEY w)" and "env_set (MONGODB_URI w)"
    and "form_data w = Inr (Some (File_value u))"
    and "file_size u \<le> maxSize" and "endsWith (file_name u) (str ''.txt'')"
    and "trim (file_text u) \<noteq> []" and "length (file_text u) \<le> 50000"
    and "connect_fault w = None" and "\<forall>k. createIndex_fault w k = None"
    and "\<forall>b. insertMany_fault w b = None" and "find_fault w = None"
    and "ids_fresh st"
    and "\<forall>m\<in>set models. \<not> returns_text (completion w m)"
    and "parseChatManually (file_text u) \<noteq> []"
  shows "fst (POST w st) =
       json_success (str ''Successfully processed '' @
                     show_nat (length (parseChatManually (file_text u))) @
                     str '' messages using fallback parsing'')
         (stored w st (parseChatManually (file_text u))) True \<and>
     docs (snd (POST w st)) = docs st @ stored w st (parseChatManually (file_text u)) \<and>
     calls (snd (POST w st)) =
       calls st @ [FormData] @ (if connected st then [] else [Connect]) @
       [CreateIndex (str ''created_at''), CreateIndex (str ''sender'')] @
       map Completion models @
       [InsertMany (map2 stamp (parseChatManually (file_text u))
          (map (now w) [ticks st ..< ticks st + length (parseChatManually (file_text u))])),
        Find [next_id st ..< next_id st + length (parseChatManually (file_text u))]]"
proof -
  let ?msgs = "parseChatManually (file_text u)"
  define st2 where "st2 =
     st\<lparr>connected := True,
        calls := calls st @ [FormData] @ (if connected st then [] else [Connect]) @
          [CreateIndex (str ''created_at''), CreateIndex (str ''sender'')] @
          map Completion models\<rparr>"
  have f: "connected st2" "docs st2 = docs st" "next_id st2 = next_id st" "ticks st2 = ticks st"
    "calls st2 = calls st @ [FormData] @ (if connected st then [] else [Connect]) @
          [CreateIndex (str ''created_at''), CreateIndex (str ''sender'')] @
          map Completion models"
    by (simp_all add: st2_def)
  have post: "POST w st =
     (case fallback_parsing w st2 (file_text u) (last_error w models) of
        (Inl e, st1) \<Rightarrow> (catch_all w e, st1)
      | (Inr r, st1) \<Rightarrow> (r, st1))"
    using POST_valid_file[OF assms(1-7), of st]
      process_content_no_text[OF assms(2) assms(8) assms(9) assms(13),
        of "st\<lparr>calls := calls st @ [FormData]\<rparr>" "file_text u"]
    by (simp add: st2_def)
  have fresh: "ids_fresh st2" using assms(12) by (simp add: ids_fresh_def f)
  have st: "stored w st2 ?msgs = stored w st ?msgs" by (rule stored_cong) (simp_all add: f)
  have ins: "insertChatMessages w st2 ?msgs =
    (Inr (stored w st ?msgs),
     st2\<lparr>connected := True, docs := docs st2 @ stored w st ?msgs,
        next_id := next_id st2 + length ?msgs, ticks := ticks st2 + length ?msgs,
        calls := calls st2 @ (if connected st2 then [] else [Connect]) @
          [InsertMany (map2 stamp ?msgs (map (now w) [ticks st2 ..< ticks st2 + length ?msgs])),
           Find [next_id st2 ..< next_id st2 + length ?msgs]]\<rparr>)"
    using insertChatMessages_ok[OF assms(2) assms(8) assms(10) assms(11) fresh, of ?msgs]
    by (simp only: st)
  have fb: "fallback_parsing w st2 (file_text u) (last_error w models) =
     (Inr (json_success
        (str ''Successfully processed '' @ show_nat (length (stored w st ?msgs)) @
         str '' messages using fallback parsing'') (stored w st ?msgs) True),
      st2\<lparr>connected := True, docs := docs st2 @ stored w st ?msgs,
        next_id := next_id st2 + length ?msgs, ticks := ticks st2 + length ?msgs,
        calls := calls st2 @ (if connected st2 then [] else [Connect]) @
          [InsertMany (map2 stamp ?msgs (map (now w) [ticks st2 ..< ticks st2 + length ?msgs])),
           Find [next_id st2 ..< next_id st2 + length ?msgs]]\<rparr>)"
    using assms(14) by (simp add: fallback_parsing_def ins Let_def)
  show ?thesis
    by (simp add: post fb f stored_props)
qed

text \<open>
  C1. Take a request that passes the checks, with both variables configured, a driver
  whose calls succeed and a collection whose ids are fresh, in which no model returns
  text. When the manual parser finds at least one record in the file's text, the route
  answers 200 with \<open>fallback: true\<close>. The documents of \<open>data\<close> carry, in the
  parser's order, exactly the sender, timestamp and message it produced, and they are
  what the request added to the collection. The calls made are the reading of the
  form, the connection and the two indexes, one completion per model, the insertion
  and the read-back: \<open>JSON.parse\<close> is never called.
\<close>

theorem manual_fallback_success:
  assumes "env_set (OPENAI_API_KEY w)" and "env_set (MONGODB_URI w)"
    and "form_data w = Inr (Some (File_value u))"
    and "file_size u \<le> maxSize" and "endsWith (file_name u) (str ''.txt'')"
    and "trim (file_text u) \<noteq> []" and "length (file_text u) \<le> 50000"
    and "connect_fault w = None" and "\<forall>k. createIndex_fault w k = None"
    and "\<forall>b. insertMany_fault w b = None" and "find_fault w = None"
    and "ids_fresh st"
    and "\<forall>m\<in>set models. \<not> returns_text (completion w m)"
    and "parseChatManually (file_text u) \<noteq> []"
  shows "\<exists>data.
     fst (POST w st) =
       \<lparr>status = 200,
        body = Success_Body
          (str ''Successfully processed '' @ show_nat (length data) @
           str '' messages using fallback parsing'') data True\<rparr> \<and>
     map sender data = map sender (parseChatManually (file_text u)) \<and>
     map timestamp data = map timestamp (parseChatManually (file_text u)) \<and>
     map message data = map message (parseChatManually (file_text u)) \<and>
     map fields_of data = parseChatManually (file_text u) \<and>
     docs (snd (POST w st)) = docs st @ data \<and>
     calls (snd (POST w st)) =
       calls st @ [FormData] @ (if connected st then [] else [Connect]) @
       [CreateIndex (str ''created_at''), CreateIndex (str ''sender'')] @
       map Completion models @
       [InsertMany (map (\<lambda>d. stamp (fields_of d) (created_at d)) data), Find (map doc_id data)]"
proof -
  let ?msgs = "parseChatManually (file_text u)"
  have stamps: "map (\<lambda>d. stamp (fields_of d) (created_at d)) (stored w st ?msgs) =
      map2 stamp ?msgs (map (now w) [ticks st ..< ticks st + length ?msgs])"
    unfolding stored_def by (rule restamp) simp
  from POST_manual_fallback[OF assms] stamps
  show ?thesis
    by (intro exI[of _ "stored w st ?msgs"])
      (simp add: stored_props stored_fields json_success_def)
qed

lemma example_world_ok:
  "env_set (OPENAI_API_KEY (example_world (Some (str ''sk-test'')) u a p))"
  "env_set (MONGODB_URI (example_world k u a p))"
  "form_data (example_world k u a p) = Inr (Some (File_value u))"
  "connect_fault (example_world k u a p) = None"
  "\<forall>x. createIndex_fault (example_world k u a p) x = None"
  "\<forall>b. insertMany_fault (example_world k u a p) b = None"
  "find_fault (example_world k u a p) = None"
  "completion (example_world k u a p) = a"
  "JSON_parse (example_world k u a p) = p"
  "NODE_ENV (example_world k u a p) = None"
  "now (example_world k u a p) = (\<lambda>i. 1000 + i)"
  "new_OpenAI (example_world k u a p) = client_constructor"
  by (simp_all add: example_world_def env_set_def str_def)

lemma txt_file_ok:
  "length content \<le> 50000 \<Longrightarrow> file_size (txt_file content) \<le> maxSize"
  "endsWith (file_name (txt_file content)) (str ''.txt'')"
  "file_text (txt_file content) = content"
  by (simp_all add: txt_file_def maxSize_def endsWith_def str_def)

lemma empty_store_fresh: "ids_fresh empty_store"
  by (simp add: ids_fresh_def empty_store_def)

theorem manual_fallback_success_witness:
  "parseChatManually (file_text alice_file) =
     [\<lparr>sender = JString (str ''Alice''), timestamp = JString (str ''Unknown''),
       message = JString (str ''Hello there'')\<rparr>] \<and>
   fst (POST (timeout_world alice_file) empty_store) =
     \<lparr>status = 200,
      body = Success_Body (str ''Successfully processed 1 messages using fallback parsing'')
        [\<lparr>sender = JString (str ''Alice''), timestamp = JString (str ''Unknown''),
          message = JString (str ''Hello there''), created_at = 1000, doc_id = 0\<rparr>]
        True\<rparr> \<and>
   calls (snd (POST (timeout_world alice_file) empty_store)) =
     [FormData, Connect, CreateIndex (str ''created_at''), CreateIndex (str ''sender''),
      Completion (str ''gpt-3.5-turbo''), Completion (str ''gpt-4o-mini''),
      Completion (str ''gpt-4''),
      InsertMany [\<lparr>sender = JString (str ''Alice''), timestamp = JString (str ''Unknown''),
                   message = JString (str ''Hello there''), created_at = 1000\<rparr>],
      Find [0]]"
proof -
  let ?w = "timeout_world alice_file"
  let ?doc = "\<lparr>sender = JString (str ''Alice''), timestamp = JString (str ''Unknown''),
          message = JString (str ''Hello there''), created_at = 1000, doc_id = 0\<rparr>"
  have p: "parseChatManually (str ''Alice: Hello there'') =
     [\<lparr>sender = JString (str ''Alice''), timestamp = JString (str ''Unknown''),
       message = JString (str ''Hello there'')\<rparr>]"
    by code_simp
  have ft: "file_text alice_file = str ''Alice: Hello there''"
    by (simp add: alice_file_def txt_file_ok)
  have t: "trim (str ''Alice: Hello there'') \<noteq> []"
    by code_simp
  have l: "length (str ''Alice: Hello there'') \<le> 50000"
    by (simp add: str_def)
  have tw: "env_set (OPENAI_API_KEY ?w)" "env_set (MONGODB_URI ?w)"
    "form_data ?w = Inr (Some (File_value alice_file))" "connect_fault ?w = None"
    "\<forall>k. createIndex_fault ?w k = None" "\<forall>b. insertMany_fault ?w b = None"
    "find_fault ?w = None" "now ?w = (\<lambda>i. 1000 + i)"
    "\<forall>m\<in>set models. \<not> returns_text (completion ?w m)"
    by (simp_all add: timeout_world_def example_world_ok returns_text_def)
  have fl: "file_size alice_file \<le> maxSize" "endsWith (file_name alice_file) (str ''.txt'')"
    using l by (simp_all add: alice_file_def txt_file_ok)
  have "\<exists>data.
     fst (POST ?w empty_store) =
       \<lparr>status = 200,
        body = Success_Body
          (str ''Successfully processed '' @ show_nat (length data) @
           str '' messages using fallback parsing'') data True\<rparr> \<and>
     map sender data = map sender (parseChatManually (file_text alice_file)) \<and>
     map timestamp data = map timestamp (parseChatManually (file_text alice_file)) \<and>
     map message data = map message (parseChatManually (file_text alice_file)) \<and>
     map fields_of data = parseChatManually (file_text alice_file) \<and>
     docs (snd (POST ?w empty_store)) = docs empty_store @ data \<and>
     calls (snd (POST ?w empty_store)) =
       calls empty_store @ [FormData] @ (if connected empty_store then [] else [Connect]) @
       [CreateIndex (str ''created_at''), CreateIndex (str ''sender'')] @
       map Completion models @
       [InsertMany (map (\<lambda>d. stamp (fields_of d) (created_at d)) data), Find (map doc_id data)]"
    by (rule manual_fallback_success[OF tw(1-3) fl _ _ tw(4-7) empty_store_fresh tw(9)])
      (simp_all add: ft p t l)
  then obtain data where data:
    "fst (POST ?w empty_store) =
       \<lparr>status = 200,
        body = Success_Body
          (str ''Successfully processed '' @ show_nat (length data) @
           str '' messages using fallback parsing'') data True\<rparr>"
    "docs (snd (POST ?w empty_store)) = docs empty_store @ data"
    "calls (snd (POST ?w empty_store)) =
       calls empty_store @ [FormData] @ (if connected empty_store then [] else [Connect]) @
       [CreateIndex (str ''created_at''), CreateIndex (str ''sender'')] @
       map Completion models @
       [InsertMany (map (\<lambda>d. stamp (fields_of d) (created_at d)) data), Find (map doc_id data)]"
    by (elim exE conjE)
  have "docs (snd (POST ?w empty_store)) =
      docs empty_store @ stored ?w empty_store (parseChatManually (file_text alice_file))"
    using POST_manual_fallback[OF tw(1-3) fl _ _ tw(4-7) empty_store_fresh tw(9)]
    by (simp add: ft p t l)
  then have "docs (snd (POST ?w empty_store)) = [?doc]"
    by (simp add: ft p stored_def tw empty_store_def stamp_def with_id_def)
  with data(2) have d: "data = [?doc]"
    by (simp add: empty_store_def)
  have s1: "show_nat (Suc 0) = str ''1''"
    by (simp add: show_nat.simps digit_def str_def)
  have cat: "str ''Successfully processed '' @ str ''1'' @ str '' messages using fallback parsing'' =
      str ''Successfully processed 1 messages using fallback parsing''"
    by (simp add: str_def)
  from data(1) have a: "fst (POST ?w empty_store) =
     \<lparr>status = 200,
      body = Success_Body (str ''Successfully processed 1 messages using fallback parsing'')
        [?doc] True\<rparr>"
    by (simp add: d s1 cat)
  from data(3) have b: "calls (snd (POST ?w empty_store)) =
     [FormData, Connect, CreateIndex (str ''created_at''), CreateIndex (str ''sender''),
      Completion (str ''gpt-3.5-turbo''), Completion (str ''gpt-4o-mini''),
      Completion (str ''gpt-4''),
      InsertMany [\<lparr>sender = JString (str ''Alice''), timestamp = JString (str ''Unknown''),
                   message = JString (str ''Hello there''), created_at = 1000\<rparr>],
      Find [0]]"
    by (simp add: d empty_store_def models_def stamp_def fields_of_def)
  from p a b show ?thesis by (simp add: ft)
qed

text \<open>
  C2. Take a request that passes the checks, with both variables configured and a
  connection that succeeds, in which no model returns text and the manual parser finds
  no record. The route answers 500 and stores nothing. The error is the timeout
  message when the last error thrown by an attempt is an \<open>Error\<close> named
  \<open>AbortError\<close>; otherwise it is \<open>All models failed. Last error: \<close> followed by
  the message of that last error (\<open>Unknown error\<close> when no attempt threw an
  \<open>Error\<close>).
\<close>

theorem all_models_failed:
  assumes "env_set (OPENAI_API_KEY w)" and "env_set (MONGODB_URI w)"
    and "form_data w = Inr (Some (File_value u))"
    and "file_size u \<le> maxSize" and "endsWith (file_name u) (str ''.txt'')"
    and "trim (file_text u) \<noteq> []" and "length (file_text u) \<le> 50000"
    and "connect_fault w = None" and "\<forall>k. createIndex_fault w k = None"
    and "\<forall>m\<in>set models. \<not> returns_text (completion w m)"
    and "parseChatManually (file_text u) = []"
  shows "(let msg =
            (if \<exists>m. last_error w models = Some (JsError (str ''AbortError'') m)
             then str ''Request timeout - file processing took too long. Please try with a smaller file.''
             else str ''All models failed. Last error: '' @
               (case last_error w models of
                  Some (JsError n m) \<Rightarrow> m
                | _ \<Rightarrow> str ''Unknown error''))
          in fst (POST w st) =
               \<lparr>status = 500,
                body = Error_Body msg
                  (if NODE_ENV w = Some (str ''development'') then Some (new_Error msg)
                   else None)\<rparr>) \<and>
         docs (snd (POST w st)) = docs st"
proof -
  define st2 where "st2 =
     st\<lparr>connected := True,
        calls := calls st @ [FormData] @ (if connected st then [] else [Connect]) @
          [CreateIndex (str ''created_at''), CreateIndex (str ''sender'')] @
          map Completion models\<rparr>"
  have fb: "fallback_parsing w s (file_text u) le = (Inl (all_failed le), s)" for s le
    using assms(11) by (simp add: fallback_parsing_def)
  have post: "POST w st = (catch_all w (all_failed (last_error w models)), st2)"
    using POST_valid_file[OF assms(1-7), of st]
      process_content_no_text[OF assms(2) assms(8) assms(9) assms(10),
        of "st\<lparr>calls := calls st @ [FormData]\<rparr>" "file_text u"]
    by (simp add: st2_def fb)
  have d: "docs st2 = docs st" by (simp add: st2_def)
  show ?thesis
  proof (cases "last_error w models")
    case None
    then show ?thesis
      by (simp add: post d catch_all_def all_failed_def is_abort_def new_Error_def)
  next
    case (Some e)
    then show ?thesis
      by (cases e)
        (simp_all add: post d catch_all_def all_failed_def is_abort_def new_Error_def Let_def)
  qed
qed

theorem all_models_failed_witness:
  "parseChatManually (file_text noise_file) = [] \<and>
   last_error (timeout_world noise_file) models = Some timeout_error \<and>
   fst (POST (timeout_world noise_file) empty_store) =
     \<lparr>status = 500, body = Error_Body
        (str ''Request timeout - file processing took too long. Please try with a smaller file.'')
        None\<rparr> \<and>
   last_error (rate_limit_world noise_file) models = Some rate_limit_error \<and>
   fst (POST (rate_limit_world noise_file) empty_store) =
     \<lparr>status = 500, body = Error_Body
        (str ''All models failed. Last error: 429 rate limit exceeded'') None\<rparr>"
proof -
  have p: "parseChatManually (str ''???'') = []"
    by code_simp
  have t: "trim (str ''???'') \<noteq> []"
    by code_simp
  have l: "length (str ''???'') \<le> 50000"
    by (simp add: str_def)
  have e1: "last_error (timeout_world noise_file) models = Some timeout_error"
    by (simp add: last_error_def attempt_errors_def timeout_world_def example_world_ok models_def)
  have e2: "last_error (rate_limit_world noise_file) models = Some rate_limit_error"
    by (simp add: last_error_def attempt_errors_def rate_limit_world_def example_world_ok models_def)
  have a: "fst (POST (timeout_world noise_file) empty_store) =
     \<lparr>status = 500, body = Error_Body
        (str ''Request timeout - file processing took too long. Please try with a smaller file.'')
        None\<rparr>"
    using all_models_failed[of "timeout_world noise_file" noise_file empty_store] p t l
    by (simp add: e1 timeout_error_def)
      (simp add: timeout_world_def noise_file_def example_world_ok txt_file_ok returns_text_def)
  have c: "str ''All models failed. Last error: '' @ str ''429 rate limit exceeded'' =
      str ''All models failed. Last error: 429 rate limit exceeded''"
    by (simp add: str_def)
  have b: "fst (POST (rate_limit_world noise_file) empty_store) =
     \<lparr>status = 500, body = Error_Body
        (str ''All models failed. Last error: 429 rate limit exceeded'') None\<rparr>"
    using all_models_failed[of "rate_limit_world noise_file" noise_file empty_store] p t l
    by (simp add: e2 rate_limit_error_def c str_def[of "''Error''"] str_def[of "''AbortError''"])
      (simp add: rate_limit_world_def noise_file_def example_world_ok txt_file_ok returns_text_def)
  from a b e1 e2 p show ?thesis
    by (simp add: noise_file_def txt_file_ok)
qed

section \<open>The reply of a model\<close>

subsection \<open>What a match of a key pattern says about the line\<close>

lemma startsWith_includes: "startsWith s p \<Longrightarrow> includes_str s p"
  by (cases s; cases p) simp_all

lemma includes_append: "includes_str u p \<Longrightarrow> includes_str (pre @ u) p"
  by (induction pre) simp_all

lemma rmatch_lits: "rmatch (lits k @ ps) s = Some r \<Longrightarrow> startsWith s (str k)"
proof (induction k arbitrary: s)
  case Nil
  then show ?case by (simp add: str_def)
next
  case (Cons c k)
  then show ?case
    by (cases s) (auto simp: lits_def str_def cu_def split: if_splits)
qed

lemma search_Some:
  "search ps s = Some (before, m, rest) \<Longrightarrow> \<exists>u. s = before @ u \<and> exec_at ps u \<noteq> None"
proof (induction s arbitrary: before)
  case Nil
  then show ?case by (auto split: option.splits)
next
  case (Cons x xs)
  show ?case
  proof (cases "exec_at ps (x # xs)")
    case (Some a)
    with Cons.prems show ?thesis by (auto split: prod.splits)
  next
    case None
    with Cons.prems obtain b where b: "search ps xs = Some (b, m, rest)" "before = x # b"
      by (auto split: option.splits)
    from Cons.IH[OF b(1)] b(2) show ?thesis by auto
  qed
qed

lemma key_regex_match:
  assumes "match t (key_regex k) \<noteq> None"
  shows "t \<noteq> [] \<and> includes_str t (str k)"
proof -
  let ?ps = "lits k @ [Lit dquote, Lit (cu CHR '':''), Rep (Star is_ws),
      Lit dquote, Cap (Star (\<lambda>c. c \<noteq> dquote)), Lit dquote]"
  from assms obtain before m rest where "search (Lit dquote # ?ps) t = Some (before, m, rest)"
    by (auto simp: match_def exec_def key_regex_def split: option.splits)
  from search_Some[OF this] obtain u where u: "t = before @ u" "exec_at (Lit dquote # ?ps) u \<noteq> None"
    by blast
  from u(2) obtain xs r where xs: "u = dquote # xs" "rmatch ?ps xs = Some r"
    by (cases u) (auto simp: exec_at_def split: option.splits if_splits)
  from rmatch_lits[OF xs(2)] have "includes_str xs (str k)" by (rule startsWith_includes)
  then have "includes_str u (str k)" by (simp add: xs(1))
  then show ?thesis using u(1) xs(1) by (simp add: includes_append)
qed

lemma recover_line_iff:
  "recover_line line =
     (if match (trim line) (key_regex ''sender'') \<noteq> None \<or>
         match (trim line) (key_regex ''timestamp'') \<noteq> None \<or>
         match (trim line) (key_regex ''message'') \<noteq> None
      then Some (JObject
        [(str ''sender'', captured_or (match (trim line) (key_regex ''sender'')) (str ''Unknown'')),
         (str ''timestamp'', captured_or (match (trim line) (key_regex ''timestamp'')) (str ''Unknown'')),
         (str ''message'', captured_or (match (trim line) (key_regex ''message'')) [])])
      else None)"
  using key_regex_match[of "trim line" "''sender''"] key_regex_match[of "trim line" "''timestamp''"]
    key_regex_match[of "trim line" "''message''"]
  by (auto simp: recover_line_def Let_def)

lemma recover_lines_acc: "recover_lines ls acc = acc @ List.map_filter recover_line ls"
  by (induction ls arbitrary: acc) (simp_all split: option.splits)

lemma parse_response_snd: "snd (parse_response w st t) = log_call (JSON_Parse (sanitize t)) st"
  by (simp add: parse_response_def Let_def split: sum.splits)

lemma parse_response_fst: "fst (parse_response w st t) = fst (parse_response w st' t)"
  by (simp add: parse_response_def Let_def split: sum.splits)

lemma parse_response_recovery:
  "JSON_parse w (sanitize t) = Inl e \<Longrightarrow>
   fst (parse_response w st t) =
     (if List.map_filter recover_line (split t (cu CHR 0x0A)) = []
      then Inl (new_Error (errorMessage t))
      else Inr (JArray (List.map_filter recover_line (split t (cu CHR 0x0A)))))"
  by (simp add: parse_response_def Let_def recover_lines_acc)

subsection \<open>The route when a model gives text\<close>

lemma process_content_text:
  assumes "env_set (MONGODB_URI w)" and "connect_fault w = None"
    and "\<forall>k. createIndex_fault w k = None"
    and "models = pre @ m # post" and "\<forall>x\<in>set pre. \<not> returns_text (completion w x)"
    and "completion w m = Returned (Some t)" and "t \<noteq> []"
  shows "process_content w st fileContent =
     model_path w
       (st\<lparr>connected := True,
           calls := calls st @ (if connected st then [] else [Connect]) @
             [CreateIndex (str ''created_at''), CreateIndex (str ''sender'')] @
             map Completion (pre @ [m])\<rparr>) t"
  using assms(1-3,7)
  by (simp add: process_content_def createChatMessagesCollection_ok assms(4)
      attempt_models_first_text[OF assms(5) assms(6) assms(7)])

lemma model_path_ok:
  assumes "fst (parse_response w st t) = Inr v" and "validate_messages v = Inr msgs"
    and "env_set (MONGODB_URI w)" and "connect_fault w = None"
    and "\<forall>b. insertMany_fault w b = None" and "find_fault w = None" and "ids_fresh st"
  shows "fst (model_path w st t) =
      Inr (json_success (str ''Successfully processed '' @ show_nat (length msgs) @ str '' messages'')
             (stored w st msgs) False) \<and>
    docs (snd (model_path w st t)) = docs st @ stored w st msgs"
proof -
  define st1 where "st1 = log_call (JSON_Parse (sanitize t)) st"
  have f: "docs st1 = docs st" "next_id st1 = next_id st" "ticks st1 = ticks st"
    by (simp_all add: st1_def log_call_def)
  have p: "parse_response w st t = (Inr v, st1)"
    using assms(1) parse_response_snd[of w st t] by (simp add: st1_def prod_eq_iff)
  have fresh: "ids_fresh st1" using assms(7) by (simp add: ids_fresh_def f)
  have s: "stored w st1 msgs = stored w st msgs" by (rule stored_cong) (simp_all add: f)
  from insertChatMessages_ok[OF assms(3-6) fresh, of msgs]
  show ?thesis
    by (simp add: model_path_def p assms(2) s f stored_props)
qed

lemma POST_model_reply:
  assumes "env_set (OPENAI_API_KEY w)" and "env_set (MONGODB_URI w)"
    and "form_data w = Inr (Some (File_value u))"
    and "file_size u \<le> maxSize" and "endsWith (file_name u) (str ''.txt'')"
    and "trim (file_text u) \<noteq> []" and "length (file_text u) \<le> 50000"
    and "connect_fault w = None" and "\<forall>k. createIndex_fault w k = None"
    and "\<forall>b. insertMany_fault w b = None" and "find_fault w = None"
    and "ids_fresh st"
    and "models = pre @ m # post" and "\<forall>x\<in>set pre. \<not> returns_text (completion w x)"
    and "completion w m = Returned (Some t)" and "t \<noteq> []"
    and "fst (parse_response w st t) = Inr v" and "validate_messages v = Inr msgs"
  shows "fst (POST w st) =
      json_success (str ''Successfully processed '' @ show_nat (length msgs) @ str '' messages'')
        (stored w st msgs) False \<and>
    docs (snd (POST w st)) = docs st @ stored w st msgs"
proof -
  define st2 where "st2 =
     st\<lparr>connected := True,
        calls := calls st @ [FormData] @ (if connected st then [] else [Connect]) @
          [CreateIndex (str ''created_at''), CreateIndex (str ''sender'')] @
          map Completion (pre @ [m])\<rparr>"
  have f: "docs st2 = docs st" "next_id st2 = next_id st" "ticks st2 = ticks st"
    by (simp_all add: st2_def)
  have post: "POST w st =
     (case model_path w st2 t of
        (Inl e, st1) \<Rightarrow> (catch_all w e, st1)
      | (Inr r, st1) \<Rightarrow> (r, st1))"
    using POST_valid_file[OF assms(1-7), of st]
      process_content_text[OF assms(2) assms(8) assms(9) assms(13-16),
        of "st\<lparr>calls := calls st @ [FormData]\<rparr>" "file_text u"]
    by (simp add: st2_def)
  have fresh: "ids_fresh st2" using assms(12) by (simp add: ids_fresh_def f)
  have pr: "fst (parse_response w st2 t) = Inr v"
    using assms(17) parse_response_fst[of w st2 t st] by simp
  have s: "stored w st2 msgs = stored w st msgs" by (rule stored_cong) (simp_all add: f)
  from model_path_ok[OF pr assms(18) assms(2) assms(8) assms(10) assms(11) fresh]
  show ?thesis
    by (cases "model_path w st2 t") (simp add: post s f)
qed

subsection \<open>The first reply wins; a reply that is not JSON is searched for keys\<close>

text \<open>
  C3. The loop stops at the first model that returns non-empty text: when the models
  before it throw or return nothing, the text kept is that reply, and the completion
  calls made are those for the models up to it, none for a later one. When
  \<open>JSON.parse\<close> throws on the cleaned reply, the result is the list of the objects
  recovered from the lines of the raw reply, in order (and the descriptive error when
  there is none). A line gives an object exactly when one of the three quoted keys,
  followed by a colon and a quoted value, occurs in it; each field is the value found
  for its key, or its default. The line \<open>"sender": "Bob"\<close> gives
  \<open>{sender: "Bob", timestamp: "Unknown", message: ""}\<close>, and validation keeps it.
\<close>

theorem first_reply_and_recovery:
  "((\<forall>x\<in>set pre. \<not> returns_text (completion w x)) \<and> completion w m = Returned (Some t) \<and>
    t \<noteq> [] \<longrightarrow>
      attempt_models w (pre @ m # post) (rt, le, st) =
        (Some t,
         (if attempt_errors w pre = [] then le else Some (last (attempt_errors w pre))),
         st\<lparr>calls := calls st @ map Completion (pre @ [m])\<rparr>)) \<and>
   (JSON_parse w (sanitize t) = Inl e \<longrightarrow>
      fst (parse_response w st t) =
        (if List.map_filter recover_line (split t (cu CHR 0x0A)) = []
         then Inl (new_Error (errorMessage t))
         else Inr (JArray (List.map_filter recover_line (split t (cu CHR 0x0A)))))) \<and>
   recover_line line =
     (if match (trim line) (key_regex ''sender'') \<noteq> None \<or>
         match (trim line) (key_regex ''timestamp'') \<noteq> None \<or>
         match (trim line) (key_regex ''message'') \<noteq> None
      then Some (JObject
        [(str ''sender'', captured_or (match (trim line) (key_regex ''sender'')) (str ''Unknown'')),
         (str ''timestamp'', captured_or (match (trim line) (key_regex ''timestamp'')) (str ''Unknown'')),
         (str ''message'', captured_or (match (trim line) (key_regex ''message'')) [])])
      else None) \<and>
   recover_line bob_reply = Some bob_object \<and>
   validate_messages (JArray [bob_object]) = Inr [bob_record]"
proof -
  have a: "(\<forall>x\<in>set pre. \<not> returns_text (completion w x)) \<and> completion w m = Returned (Some t) \<and>
    t \<noteq> [] \<longrightarrow>
      attempt_models w (pre @ m # post) (rt, le, st) =
        (Some t,
         (if attempt_errors w pre = [] then le else Some (last (attempt_errors w pre))),
         st\<lparr>calls := calls st @ map Completion (pre @ [m])\<rparr>)"
    using attempt_models_first_text[of pre w m t post rt le st] by blast
  have b: "JSON_parse w (sanitize t) = Inl e \<longrightarrow>
      fst (parse_response w st t) =
        (if List.map_filter recover_line (split t (cu CHR 0x0A)) = []
         then Inl (new_Error (errorMessage t))
         else Inr (JArray (List.map_filter recover_line (split t (cu CHR 0x0A)))))"
    using parse_response_recovery[of w t e st] by blast
  have c: "recover_line bob_reply = Some bob_object"
    by code_simp
  have d: "validate_messages (JArray [bob_object]) = Inr [bob_record]"
    by code_simp
  from a b c d recover_line_iff[of line] show ?thesis by blast
qed

theorem first_reply_and_recovery_witness:
  "models = [str ''gpt-3.5-turbo''] @ str ''gpt-4o-mini'' # [str ''gpt-4''] \<and>
   \<not> returns_text (completion bob_world (str ''gpt-3.5-turbo'')) \<and>
   completion bob_world (str ''gpt-4o-mini'') = Returned (Some bob_reply) \<and>
   attempt_models bob_world models (None, None, empty_store) =
     (Some bob_reply, Some timeout_error,
      empty_store\<lparr>calls := [Completion (str ''gpt-3.5-turbo''), Completion (str ''gpt-4o-mini'')]\<rparr>) \<and>
   JSON_parse bob_world (sanitize bob_reply) = Inl syntax_error \<and>
   fst (parse_response bob_world empty_store bob_reply) = Inr (JArray [bob_object]) \<and>
   fst (POST bob_world empty_store) =
     \<lparr>status = 200,
      body = Success_Body (str ''Successfully processed 1 messages'')
        [\<lparr>sender = JString (str ''Bob''), timestamp = JString (str ''Unknown''),
          message = JString [], created_at = 1000, doc_id = 0\<rparr>]
        False\<rparr> \<and>
   map fields_of (docs (snd (POST bob_world empty_store))) = [bob_record]"
proof -
  have ms: "models = [str ''gpt-3.5-turbo''] @ str ''gpt-4o-mini'' # [str ''gpt-4'']"
    by (simp add: models_def)
  have c1: "completion bob_world (str ''gpt-3.5-turbo'') = Threw timeout_error"
    by (simp add: bob_world_def example_world_ok bob_completion_def)
  have c2: "completion bob_world (str ''gpt-4o-mini'') = Returned (Some bob_reply)"
    by (simp add: bob_world_def example_world_ok bob_completion_def str_def)
  have ne: "bob_reply \<noteq> []"
    by (simp add: bob_reply_def)
  have pre_ok: "\<forall>x\<in>set [str ''gpt-3.5-turbo'']. \<not> returns_text (completion bob_world x)"
    by (simp add: c1 returns_text_def)
  have jp: "JSON_parse bob_world (sanitize bob_reply) = Inl syntax_error"
    by (simp add: bob_world_def example_world_ok)
  have rl: "List.map_filter recover_line (split bob_reply (cu CHR 0x0A)) = [bob_object]"
    by code_simp
  note inst = first_reply_and_recovery[of "[str ''gpt-3.5-turbo'']" bob_world "str ''gpt-4o-mini''"
      bob_reply "[str ''gpt-4'']" None None empty_store syntax_error]
  have loop: "attempt_models bob_world models (None, None, empty_store) =
     (Some bob_reply, Some timeout_error,
      empty_store\<lparr>calls := [Completion (str ''gpt-3.5-turbo''), Completion (str ''gpt-4o-mini'')]\<rparr>)"
    using inst pre_ok c2 ne
    by (simp add: ms attempt_errors_def c1 empty_store_def)
  have pr: "fst (parse_response bob_world empty_store bob_reply) = Inr (JArray [bob_object])"
    using inst jp by (simp add: rl)
  have v: "validate_messages (JArray [bob_object]) = Inr [bob_record]"
    using inst by blast
  have t: "trim (str ''Alice: Hello there'') \<noteq> []"
    by code_simp
  have l: "length (str ''Alice: Hello there'') \<le> 50000"
    by (simp add: str_def)
  have s1: "show_nat (Suc 0) = str ''1''"
    by (simp add: show_nat.simps digit_def str_def)
  have cat: "str ''Successfully processed '' @ str ''1'' @ str '' messages'' =
      str ''Successfully processed 1 messages''"
    by (simp add: str_def)
  have bw: "env_set (OPENAI_API_KEY bob_world)" "env_set (MONGODB_URI bob_world)"
    "form_data bob_world = Inr (Some (File_value alice_file))" "connect_fault bob_world = None"
    "\<forall>k. createIndex_fault bob_world k = None" "\<forall>b. insertMany_fault bob_world b = None"
    "find_fault bob_world = None"
    by (simp_all add: bob_world_def example_world_ok)
  have post: "fst (POST bob_world empty_store) =
      json_success (str ''Successfully processed '' @ show_nat (length [bob_record]) @ str '' messages'')
        (stored bob_world empty_store [bob_record]) False \<and>
    docs (snd (POST bob_world empty_store)) = docs empty_store @ stored bob_world empty_store [bob_record]"
    by (rule POST_model_reply[where u = alice_file and pre = "[str ''gpt-3.5-turbo'']"
          and m = "str ''gpt-4o-mini''" and post = "[str ''gpt-4'']" and t = bob_reply
          and v = "JArray [bob_object]"])
      (simp_all add: bw alice_file_def txt_file_ok t l empty_store_fresh ms pre_ok c2 ne pr v)
  have sd: "stored bob_world empty_store [bob_record] =
        [\<lparr>sender = JString (str ''Bob''), timestamp = JString (str ''Unknown''),
          message = JString [], created_at = 1000, doc_id = 0\<rparr>]"
    by (simp add: stored_def bob_record_def empty_store_def stamp_def with_id_def
        bob_world_def example_world_ok)
  from post have p1: "fst (POST bob_world empty_store) =
     \<lparr>status = 200,
      body = Success_Body (str ''Successfully processed 1 messages'')
        [\<lparr>sender = JString (str ''Bob''), timestamp = JString (str ''Unknown''),
          message = JString [], created_at = 1000, doc_id = 0\<rparr>]
        False\<rparr>"
    by (simp add: s1 cat sd json_success_def)
  from post have p2: "map fields_of (docs (snd (POST bob_world empty_store))) = [bob_record]"
    by (simp add: empty_store_def stored_props)
  from ms c1 c2 loop jp pr p1 p2 show ?thesis
    by (simp add: returns_text_def)
qed

section \<open>Arrays as elements\<close>

text \<open>
  C10. The check of an element accepts every array: an array is truthy and of type
  object. It has none of the three properties, so it is normalized to the record with
  all three defaults. A reply that parses to \<open>[[]]\<close> passes \<open>parse_response\<close>
  unchanged and validation turns it into exactly one such record.
\<close>

theorem array_elements_accepted:
  "\<not> invalid_element (JArray ys) \<and>
   normalize_message (JArray ys) = defaulted \<and>
   validate_messages (JArray [JArray []]) = Inr [defaulted] \<and>
   (JSON_parse w (sanitize t) = Inr (JArray [JArray []]) \<longrightarrow>
      fst (parse_response w st t) = Inr (JArray [JArray []]))"
  by (simp add: invalid_element_def normalize_message_def or_else_def defaulted_def
      validate_messages_def parse_response_def Let_def)

theorem array_elements_accepted_witness:
  "JSON_parse nested_world (sanitize (str '' [[]] '')) = Inr (JArray [JArray []]) \<and>
   fst (parse_response nested_world empty_store (str '' [[]] '')) = Inr (JArray [JArray []]) \<and>
   validate_messages (JArray [JArray []]) = Inr [defaulted] \<and>
   fst (POST nested_world empty_store) =
     \<lparr>status = 200,
      body = Success_Body (str ''Successfully processed 1 messages'')
        [\<lparr>sender = JString (str ''Unknown''), timestamp = JString (str ''Unknown''),
          message = JString [], created_at = 1000, doc_id = 0\<rparr>]
        False\<rparr> \<and>
   map fields_of (docs (snd (POST nested_world empty_store))) = [defaulted]"
proof -
  have s: "sanitize (str '' [[]] '') = str ''[[]]''"
    by code_simp
  have nw: "env_set (OPENAI_API_KEY nested_world)" "env_set (MONGODB_URI nested_world)"
    "form_data nested_world = Inr (Some (File_value alice_file))" "connect_fault nested_world = None"
    "\<forall>k. createIndex_fault nested_world k = None"
    "\<forall>b. insertMany_fault nested_world b = None" "find_fault nested_world = None"
    "completion nested_world (str ''gpt-3.5-turbo'') = Returned (Some (str '' [[]] ''))"
    "JSON_parse nested_world = parse_nested_empty"
    by (simp_all add: nested_world_def example_world_ok alice_file_def)
  have a: "JSON_parse nested_world (sanitize (str '' [[]] '')) = Inr (JArray [JArray []])"
    by (simp add: s nw parse_nested_empty_def)
  note inst = array_elements_accepted[of "[]" nested_world "str '' [[]] ''" empty_store]
  from inst a have pr: "fst (parse_response nested_world empty_store (str '' [[]] '')) =
      Inr (JArray [JArray []])"
    by simp
  from inst have v: "validate_messages (JArray [JArray []]) = Inr [defaulted]"
    by simp
  have ms: "models = [] @ str ''gpt-3.5-turbo'' # [str ''gpt-4o-mini'', str ''gpt-4'']"
    by (simp add: models_def)
  have t: "trim (str ''Alice: Hello there'') \<noteq> []"
    by code_simp
  have l: "length (str ''Alice: Hello there'') \<le> 50000"
    by (simp add: str_def)
  have ne: "str '' [[]] '' \<noteq> []"
    by (simp add: str_def)
  have s1: "show_nat (Suc 0) = str ''1''"
    by (simp add: show_nat.simps digit_def str_def)
  have cat: "str ''Successfully processed '' @ str ''1'' @ str '' messages'' =
      str ''Successfully processed 1 messages''"
    by (simp add: str_def)
  have post: "fst (POST nested_world empty_store) =
      json_success (str ''Successfully processed '' @ show_nat (length [defaulted]) @ str '' messages'')
        (stored nested_world empty_store [defaulted]) False \<and>
    docs (snd (POST nested_world empty_store)) =
      docs empty_store @ stored nested_world empty_store [defaulted]"
    by (rule POST_model_reply[where u = alice_file and pre = "[]"
          and m = "str ''gpt-3.5-turbo''" and post = "[str ''gpt-4o-mini'', str ''gpt-4'']"
          and t = "str '' [[]] ''" and v = "JArray [JArray []]"])
      (simp_all add: nw(1-8) alice_file_def txt_file_ok t l empty_store_fresh ms ne pr v)
  have sd: "stored nested_world empty_store [defaulted] =
        [\<lparr>sender = JString (str ''Unknown''), timestamp = JString (str ''Unknown''),
          message = JString [], created_at = 1000, doc_id = 0\<rparr>]"
    by (simp add: stored_def defaulted_def empty_store_def stamp_def with_id_def
        nested_world_def example_world_ok)
  from post have p1: "fst (POST nested_world empty_store) =
     \<lparr>status = 200,
      body = Success_Body (str ''Successfully processed 1 messages'')
        [\<lparr>sender = JString (str ''Unknown''), timestamp = JString (str ''Unknown''),
          message = JString [], created_at = 1000, doc_id = 0\<rparr>]
        False\<rparr>"
    by (simp add: s1 cat sd json_success_def)
  from post have p2: "map fields_of (docs (snd (POST nested_world empty_store))) = [defaulted]"
    by (simp add: empty_store_def stored_props)
  from a pr v p1 p2 show ?thesis by simp
qed

section \<open>The persisted records\<close>

subsection \<open>What the route hands to the store\<close>

lemma parse_line_populated: "parse_line l = Some m \<Longrightarrow> populated m"
  by (auto simp: parse_line_def populated_def Let_def split: if_splits option.splits)

lemma parseChatManually_populated: "list_all populated (parseChatManually c)"
proof -
  have "list_all populated (List.map_filter parse_line ls)" for ls
    by (induction ls) (auto simp: List.map_filter_simps parse_line_populated split: option.splits)
  then show ?thesis by (simp add: parseChatManually_def parse_lines_acc)
qed

lemma truthy_defined: "truthy v \<Longrightarrow> v \<noteq> JUndefined"
  by auto

lemma normalize_populated: "populated (normalize_message msg)"
  by (auto simp: populated_def normalize_message_def or_else_def)

lemma validate_from_populated: "validate_from k xs = Inr ms \<Longrightarrow> list_all populated ms"
  by (induction xs arbitrary: k ms)
    (auto simp: normalize_populated split: if_splits sum.splits)

lemma validate_messages_populated: "validate_messages v = Inr ms \<Longrightarrow> list_all populated ms"
  by (cases v) (auto simp: validate_messages_def dest: validate_from_populated)

lemma stored_Nil: "stored w st [] = []"
  by (simp add: stored_def)

lemma stored_populated:
  assumes "list_all populated msgs" and "d \<in> set (stored w st msgs)"
  shows "sender d \<noteq> JUndefined \<and> timestamp d \<noteq> JUndefined \<and> message d \<noteq> JUndefined"
proof -
  from assms(2) have "fields_of d \<in> set (map fields_of (stored w st msgs))" by simp
  then have "fields_of d \<in> set msgs" by (simp only: stored_props)
  with assms(1) have "populated (fields_of d)" by (simp add: list_all_iff)
  then show ?thesis by (simp add: populated_def fields_of_def)
qed

lemma sorted_map_upt: "mono f \<Longrightarrow> sorted (map f [a ..< b])"
  by (induction b) (auto simp: sorted_append mono_def)

subsection \<open>Each stage leaves the collection alone or appends one batch\<close>

lemma attempt_models_frame:
  "attempt_models w ms (rt, le, st) = (rt', le', st') \<Longrightarrow>
   docs st' = docs st \<and> next_id st' = next_id st \<and> ticks st' = ticks st"
proof (induction ms arbitrary: rt le st)
  case Nil
  then show ?case by simp
next
  case (Cons m ms)
  show ?case
  proof (cases "completion w m")
    case (Threw e)
    with Cons.prems have "attempt_models w ms (rt, Some e, log_call (Completion m) st) = (rt', le', st')"
      by simp
    from Cons.IH[OF this] show ?thesis by (simp add: log_call_def)
  next
    case (Returned content)
    show ?thesis
    proof (cases "has_text content")
      case True
      with Returned Cons.prems show ?thesis by (auto simp: log_call_def)
    next
      case False
      with Returned Cons.prems
      have "attempt_models w ms (content, le, log_call (Completion m) st) = (rt', le', st')"
        by simp
      from Cons.IH[OF this] show ?thesis by (simp add: log_call_def)
    qed
  qed
qed

lemma fallback_parsing_docs:
  "\<exists>msgs. list_all populated msgs \<and>
     docs (snd (fallback_parsing w st c le)) = docs st @ stored w st msgs"
proof (cases "parseChatManually c = []")
  case True
  then have "docs (snd (fallback_parsing w st c le)) = docs st @ stored w st []"
    by (simp add: fallback_parsing_def stored_Nil)
  then show ?thesis by (intro exI[of _ "[]"]) simp
next
  case False
  from insertChatMessages_docs[of w st "parseChatManually c"]
  show ?thesis
  proof
    assume "docs (snd (insertChatMessages w st (parseChatManually c))) = docs st"
    with False have "docs (snd (fallback_parsing w st c le)) = docs st @ stored w st []"
      by (auto simp: fallback_parsing_def stored_Nil Let_def split: prod.splits sum.splits)
    then show ?thesis by (intro exI[of _ "[]"]) simp
  next
    assume "docs (snd (insertChatMessages w st (parseChatManually c))) =
        docs st @ stored w st (parseChatManually c)"
    with False have "docs (snd (fallback_parsing w st c le)) =
        docs st @ stored w st (parseChatManually c)"
      by (auto simp: fallback_parsing_def Let_def split: prod.splits sum.splits)
    then show ?thesis
      by (intro exI[of _ "parseChatManually c"]) (simp add: parseChatManually_populated)
  qed
qed

lemma model_path_docs:
  "\<exists>msgs. list_all populated msgs \<and>
     docs (snd (model_path w st t)) = docs st @ stored w st msgs"
proof -
  define st1 where "st1 = log_call (JSON_Parse (sanitize t)) st"
  have f: "docs st1 = docs st" "next_id st1 = next_id st" "ticks st1 = ticks st"
    by (simp_all add: st1_def log_call_def)
  have s: "stored w st1 msgs = stored w st msgs" for msgs
    by (rule stored_cong) (simp_all add: f)
  obtain r where p: "parse_response w st t = (r, st1)"
    using parse_response_snd[of w st t] by (cases "parse_response w st t") (simp add: st1_def)
  have unchanged: "docs st' = docs st \<Longrightarrow>
      \<exists>msgs. list_all populated msgs \<and> docs st' = docs st @ stored w st msgs" for st'
    by (intro exI[of _ "[]"]) (simp add: stored_Nil)
  show ?thesis
  proof (cases r)
    case (Inl e)
    then have "docs (snd (model_path w st t)) = docs st" by (simp add: model_path_def p f)
    then show ?thesis by (rule unchanged)
  next
    case (Inr v)
    show ?thesis
    proof (cases "validate_messages v")
      case (Inl e)
      with Inr have "docs (snd (model_path w st t)) = docs st" by (simp add: model_path_def p f)
      then show ?thesis by (rule unchanged)
    next
      case (Inr msgs)
      have m: "snd (model_path w st t) = snd (insertChatMessages w st1 msgs)"
        using \<open>r = Inr v\<close> Inr by (simp add: model_path_def p split: prod.splits sum.splits)
      from insertChatMessages_docs[of w st1 msgs]
      show ?thesis
      proof
        assume "docs (snd (insertChatMessages w st1 msgs)) = docs st1"
        then have "docs (snd (model_path w st t)) = docs st" by (simp add: m f)
        then show ?thesis by (rule unchanged)
      next
        assume "docs (snd (insertChatMessages w st1 msgs)) = docs st1 @ stored w st1 msgs"
        then have "docs (snd (model_path w st t)) = docs st @ stored w st msgs"
          by (simp add: m f s)
        then show ?thesis
          using validate_messages_populated[OF Inr] by (intro exI[of _ msgs]) simp
      qed
    qed
  qed
qed

lemma process_content_docs:
  "\<exists>msgs. list_all populated msgs \<and>
     docs (snd (process_content w st c)) = docs st @ stored w st msgs"
proof (cases "createChatMessagesCollection w st")
  case (Pair r st1)
  from createChatMessagesCollection_frame[OF Pair]
  have f1: "docs st1 = docs st" "next_id st1 = next_id st" "ticks st1 = ticks st" by simp_all
  show ?thesis
  proof (cases r)
    case (Inl e)
    with Pair have "docs (snd (process_content w st c)) = docs st @ stored w st []"
      by (simp add: process_content_def f1 stored_Nil)
    then show ?thesis by (intro exI[of _ "[]"]) simp
  next
    case (Inr x)
    obtain rt le st2 where loop: "attempt_models w models (None, None, st1) = (rt, le, st2)"
      by (cases "attempt_models w models (None, None, st1)") auto
    from attempt_models_frame[OF loop] f1
    have f2: "docs st2 = docs st" "next_id st2 = next_id st" "ticks st2 = ticks st" by simp_all
    have s: "stored w st2 msgs = stored w st msgs" for msgs
      by (rule stored_cong) (simp_all add: f2)
    have "process_content w st c = fallback_parsing w st2 c le \<or>
        (\<exists>t. process_content w st c = model_path w st2 t)"
      using Pair Inr loop by (auto simp: process_content_def split: option.splits)
    then show ?thesis
    proof
      assume a: "process_content w st c = fallback_parsing w st2 c le"
      from fallback_parsing_docs[of w st2 c le] show ?thesis by (simp add: a f2 s)
    next
      assume "\<exists>t. process_content w st c = model_path w st2 t"
      then obtain t where a: "process_content w st c = model_path w st2 t" by blast
      from model_path_docs[of w st2 t] show ?thesis by (simp add: a f2 s)
    qed
  qed
qed

lemma POST_docs:
  "\<exists>msgs. list_all populated msgs \<and> docs (snd (POST w st)) = docs st @ stored w st msgs"
proof -
  define st1 where "st1 = log_call FormData st"
  have f: "docs st1 = docs st" "next_id st1 = next_id st" "ticks st1 = ticks st"
    by (simp_all add: st1_def log_call_def)
  have s: "stored w st1 msgs = stored w st msgs" for msgs
    by (rule stored_cong) (simp_all add: f)
  define c where "c = (case form_data w of Inr (Some (File_value u)) \<Rightarrow> file_text u | _ \<Rightarrow> [])"
  have "snd (POST w st) = st \<or> snd (POST w st) = st1 \<or>
      snd (POST w st) = snd (process_content w st1 c)"
    by (auto simp: POST_def process_upload_def Let_def st1_def c_def
        split: sum.splits option.splits prod.splits form_entry.splits)
  then consider "docs (snd (POST w st)) = docs st"
    | "snd (POST w st) = snd (process_content w st1 c)"
    using f by auto
  then show ?thesis
  proof cases
    case 1
    then show ?thesis by (intro exI[of _ "[]"]) (simp add: stored_Nil)
  next
    case 2
    from process_content_docs[of w st1 c] show ?thesis by (simp add: 2 f s)
  qed
qed

lemma backward_clock_world_ok:
  "env_set (OPENAI_API_KEY backward_clock_world)" "env_set (MONGODB_URI backward_clock_world)"
  "form_data backward_clock_world = Inr (Some (File_value two_line_file))"
  "connect_fault backward_clock_world = None"
  "\<forall>k. createIndex_fault backward_clock_world k = None"
  "\<forall>b. insertMany_fault backward_clock_world b = None"
  "find_fault backward_clock_world = None"
  "\<forall>m\<in>set models. \<not> returns_text (completion backward_clock_world m)"
  "now backward_clock_world = (\<lambda>i. 1000 - i)"
  by (simp_all add: backward_clock_world_def timeout_world_def example_world_ok returns_text_def)

text \<open>
  C9, as stated, on the ordering of the creation timestamps: a two-line chat is
  uploaded while every model times out, so the route inserts the two records of the
  manual parser in one batch. \<open>insertChatMessages\<close> reads the clock once for each of
  them, and the clock steps back between the two readings: the stored timestamps are
  1000 and then 999, which is not non-decreasing.
\<close>

theorem batch_order_counterexample:
  "map fields_of (docs (snd (POST backward_clock_world empty_store))) =
     [\<lparr>sender = JString (str ''Alice''), timestamp = JString (str ''Unknown''),
       message = JString (str ''hi'')\<rparr>,
      \<lparr>sender = JString (str ''Bob''), timestamp = JString (str ''Unknown''),
       message = JString (str ''yo'')\<rparr>] \<and>
   map created_at (docs (snd (POST backward_clock_world empty_store))) = [1000, 999] \<and>
   \<not> sorted (map created_at (docs (snd (POST backward_clock_world empty_store))))"
proof -
  let ?w = "backward_clock_world"
  let ?msgs = "[\<lparr>sender = JString (str ''Alice''), timestamp = JString (str ''Unknown''),
       message = JString (str ''hi'')\<rparr>,
      \<lparr>sender = JString (str ''Bob''), timestamp = JString (str ''Unknown''),
       message = JString (str ''yo'')\<rparr>]"
  have p: "parseChatManually (str ''Alice: hi\<newline>Bob: yo'') = ?msgs"
    by code_simp
  have ft: "file_text two_line_file = str ''Alice: hi\<newline>Bob: yo''"
    by (simp add: two_line_file_def txt_file_ok)
  have t: "trim (str ''Alice: hi\<newline>Bob: yo'') \<noteq> []"
    by code_simp
  have l: "length (str ''Alice: hi\<newline>Bob: yo'') \<le> 50000"
    by (simp add: str_def)
  have fl: "file_size two_line_file \<le> maxSize" "endsWith (file_name two_line_file) (str ''.txt'')"
    using l by (simp_all add: two_line_file_def txt_file_ok)
  note w = backward_clock_world_ok
  have "docs (snd (POST ?w empty_store)) =
      docs empty_store @ stored ?w empty_store (parseChatManually (file_text two_line_file))"
    using POST_manual_fallback[OF w(1-3) fl _ _ w(4-7) empty_store_fresh w(8)]
    by (simp add: ft p t l)
  then have d: "docs (snd (POST ?w empty_store)) = stored ?w empty_store ?msgs"
    by (simp add: ft p empty_store_def)
  have c: "map created_at (stored ?w empty_store ?msgs) = [1000, 999]"
    by (simp add: stored_props w(9) empty_store_def upt_rec[of 0] upt_rec[of 1] upt_rec[of "Suc 0"])
  have f: "map fields_of (stored ?w empty_store ?msgs) = ?msgs"
    by (simp add: stored_props)
  show ?thesis
    unfolding d c f by simp
qed

text \<open>
  C9. Whatever a request adds to the collection is one batch of documents, appended,
  in which no sender, timestamp or message is \<open>undefined\<close>, and whose creation
  timestamps are the readings of the clock taken by the insertion, one for each
  document in batch order; a message has no creation timestamp of its own to supply.
  The same holds for any call of \<open>insertChatMessages\<close>: the batch is stored whole or
  not at all, with the three fields of its messages and with timestamps read by the
  insertion. The timestamps of a batch are non-decreasing when the clock does not
  step back.
\<close>

theorem persisted_records:
  "(\<exists>new. docs (snd (POST w st)) = docs st @ new \<and>
      (\<forall>d\<in>set new. sender d \<noteq> JUndefined \<and> timestamp d \<noteq> JUndefined \<and>
                      message d \<noteq> JUndefined) \<and>
      map created_at new = map (now w) [ticks st ..< ticks st + length new] \<and>
      (mono (now w) \<longrightarrow> sorted (map created_at new))) \<and>
   (\<exists>new. docs (snd (insertChatMessages w st msgs)) = docs st @ new \<and>
      (new = [] \<or> map fields_of new = msgs) \<and>
      map created_at new = map (now w) [ticks st ..< ticks st + length new] \<and>
      (mono (now w) \<longrightarrow> sorted (map created_at new)))"
proof
  from POST_docs[of w st] obtain ms where ms: "list_all populated ms"
    "docs (snd (POST w st)) = docs st @ stored w st ms" by blast
  show "\<exists>new. docs (snd (POST w st)) = docs st @ new \<and>
      (\<forall>d\<in>set new. sender d \<noteq> JUndefined \<and> timestamp d \<noteq> JUndefined \<and>
                      message d \<noteq> JUndefined) \<and>
      map created_at new = map (now w) [ticks st ..< ticks st + length new] \<and>
      (mono (now w) \<longrightarrow> sorted (map created_at new))"
    using ms stored_populated[OF ms(1), of _ w st] sorted_map_upt[of "now w"]
    by (intro exI[of _ "stored w st ms"]) (simp add: stored_props)
next
  from insertChatMessages_docs[of w st msgs]
  show "\<exists>new. docs (snd (insertChatMessages w st msgs)) = docs st @ new \<and>
      (new = [] \<or> map fields_of new = msgs) \<and>
      map created_at new = map (now w) [ticks st ..< ticks st + length new] \<and>
      (mono (now w) \<longrightarrow> sorted (map created_at new))"
  proof
    assume "docs (snd (insertChatMessages w st msgs)) = docs st"
    then show ?thesis by (intro exI[of _ "[]"]) simp
  next
    assume "docs (snd (insertChatMessages w st msgs)) = docs st @ stored w st msgs"
    then show ?thesis
      using sorted_map_upt[of "now w"]
      by (intro exI[of _ "stored w st msgs"]) (simp add: stored_props)
  qed
qed

theorem persisted_records_witness:
  "mono (now (timeout_world alice_file)) \<and>
   docs (snd (POST (timeout_world alice_file) empty_store)) =
     [\<lparr>sender = JString (str ''Alice''), timestamp = JString (str ''Unknown''),
       message = JString (str ''Hello there''), created_at = 1000, doc_id = 0\<rparr>] \<and>
   map created_at
     (docs (snd (insertChatMessages (timeout_world alice_file) empty_store [bob_record, defaulted]))) =
     [1000, 1001] \<and>
   sorted (map created_at
     (docs (snd (insertChatMessages (timeout_world alice_file) empty_store [bob_record, defaulted])))) \<and>
   map fields_of
     (docs (snd (insertChatMessages (timeout_world alice_file) empty_store [bob_record, defaulted]))) =
     [bob_record, defaulted]"
proof -
  let ?w = "timeout_world alice_file"
  have tw: "env_set (OPENAI_API_KEY ?w)" "env_set (MONGODB_URI ?w)"
    "form_data ?w = Inr (Some (File_value alice_file))" "connect_fault ?w = None"
    "\<forall>k. createIndex_fault ?w k = None" "\<forall>b. insertMany_fault ?w b = None"
    "find_fault ?w = None" "now ?w = (\<lambda>i. 1000 + i)"
    "\<forall>m\<in>set models. \<not> returns_text (completion ?w m)"
    by (simp_all add: timeout_world_def example_world_ok returns_text_def)
  have m: "mono (now ?w)"
    by (simp add: tw mono_def)
  have p: "parseChatManually (str ''Alice: Hello there'') =
     [\<lparr>sender = JString (str ''Alice''), timestamp = JString (str ''Unknown''),
       message = JString (str ''Hello there'')\<rparr>]"
    by code_simp
  have t: "trim (str ''Alice: Hello there'') \<noteq> []"
    by code_simp
  have l: "length (str ''Alice: Hello there'') \<le> 50000"
    by (simp add: str_def)
  have ft: "file_text alice_file = str ''Alice: Hello there''"
    by (simp add: alice_file_def txt_file_ok)
  have "docs (snd (POST ?w empty_store)) =
      docs empty_store @ stored ?w empty_store (parseChatManually (file_text alice_file))"
    using POST_manual_fallback[of ?w alice_file empty_store] tw p t l
    by (simp add: alice_file_def txt_file_ok empty_store_fresh)
  then have a: "docs (snd (POST ?w empty_store)) =
     [\<lparr>sender = JString (str ''Alice''), timestamp = JString (str ''Unknown''),
       message = JString (str ''Hello there''), created_at = 1000, doc_id = 0\<rparr>]"
    by (simp add: ft p stored_def tw empty_store_def stamp_def with_id_def)
  let ?batch = "[bob_record, defaulted]"
  have ins: "docs (snd (insertChatMessages ?w empty_store ?batch)) = stored ?w empty_store ?batch"
    using insertChatMessages_ok[OF tw(2) tw(4) tw(6) tw(7) empty_store_fresh, of ?batch]
    by (simp add: empty_store_def)
  from persisted_records[of ?w empty_store ?batch, THEN conjunct2]
  obtain new where new: "docs (snd (insertChatMessages ?w empty_store ?batch)) = docs empty_store @ new"
    "new = [] \<or> map fields_of new = ?batch"
    "map created_at new = map (now ?w) [ticks empty_store ..< ticks empty_store + length new]"
    "mono (now ?w) \<longrightarrow> sorted (map created_at new)"
    by (elim exE conjE)
  from new(1) ins have n: "new = stored ?w empty_store ?batch"
    by (simp add: empty_store_def)
  then have len: "length new = 2" by (simp add: stored_props)
  from new(2) len have b: "map fields_of new = ?batch" by auto
  from new(3) len have c: "map created_at new = [1000, 1001]"
    by (simp add: tw empty_store_def upt_rec[of 0] upt_rec[of 1] upt_rec[of "Suc 0"])
  from new(4) m have e: "sorted (map created_at new)" by simp
  from new(1) have d: "docs (snd (insertChatMessages ?w empty_store ?batch)) = new"
    by (simp add: empty_store_def)
  from m a b c d e show ?thesis by simp
qed

section \<open>The sanitizer on clean replies\<close>

subsection \<open>The patterns of the sanitizer on a text in brackets\<close>

lemma trim_id:
  assumes "s \<noteq> []" and "\<not> is_ws (hd s)" and "\<not> is_ws (last s)"
  shows "trim s = s"
proof -
  from assms have front: "dropWhile is_ws s = s" by (cases s) simp_all
  from assms have "\<not> is_ws (hd (rev s))" by (simp add: hd_rev)
  with assms(1) have trail: "dropWhile is_ws (rev s) = rev s" by (cases "rev s") simp_all
  show ?thesis by (simp add: trim_def front trail)
qed

lemma brackets_not_ws: "\<not> is_ws (cu CHR ''['')" "\<not> is_ws (cu CHR '']'')"
  by (simp_all add: is_ws_def cu_def)

lemma retry_last: "retry False 0 [Lit c] (ys @ [c]) (Suc (length ys)) = Some ([], [])"
  by simp

lemma array_match:
  assumes "xs \<noteq> []" and "last xs = cu CHR '']''"
  shows "match (cu CHR ''['' # xs) re_array = Some [cu CHR ''['' # xs]"
proof -
  from assms obtain ys where ys: "xs = ys @ [cu CHR '']'']"
    by (metis append_butlast_last_id)
  have "rmatch [Rep (Star any_char), Lit (cu CHR '']'')] xs = Some ([], [])"
    using retry_last[of "cu CHR '']''" ys] by (simp add: ys any_char_def)
  then show ?thesis
    by (simp add: match_def exec_def re_array_def exec_at_def)
qed

lemma before_id: "remove_first (cu CHR ''['' # xs) re_before = cu CHR ''['' # xs"
  by (simp add: remove_first_def exec_def re_before_def exec_at_def none_of_def str_def cu_def)

lemma retry_Eol_None: "k < length u \<Longrightarrow> retry False 0 [Eol] u k = None"
  by (induction k) simp_all

lemma after_no_match:
  assumes "u \<noteq> []" and "\<not> p (last u)"
  shows "exec_at [Rep (Star p), Eol] u = None"
proof -
  have "takeWhile p u \<noteq> u"
    using assms by (auto simp: takeWhile_eq_all_conv)
  moreover have "length (takeWhile p u) \<le> length u" by (rule length_takeWhile_le)
  ultimately have "length (takeWhile p u) < length u"
    by (metis le_neq_implies_less takeWhile_eq_take take_all_iff order_refl)
  then have "retry False 0 [Eol] u (length (takeWhile p u)) = None"
    by (rule retry_Eol_None)
  then show ?thesis by (simp add: exec_at_def del: retry.simps)
qed

lemma after_search:
  "s = [] \<or> \<not> p (last s) \<Longrightarrow> search [Rep (Star p), Eol] s = Some (s, [[]], [])"
proof (induction s)
  case Nil
  then show ?case by (simp add: exec_at_def)
next
  case (Cons x xs)
  then have "exec_at [Rep (Star p), Eol] (x # xs) = None"
    by (intro after_no_match) simp_all
  moreover from Cons have "search [Rep (Star p), Eol] xs = Some (xs, [[]], [])"
    by (cases xs) simp_all
  ultimately show ?case
    by (subst search.simps) simp
qed

lemma after_id: "last s = cu CHR '']'' \<Longrightarrow> remove_first s re_after = s"
  using after_search[of s "none_of ''}]''"]
  by (simp add: remove_first_def exec_def re_after_def none_of_def str_def cu_def)

lemma sanitize_bracket_only: "bracket_only s \<Longrightarrow> sanitize s = s"
proof -
  assume "bracket_only s"
  then obtain xs where s: "s = cu CHR ''['' # xs" and xs: "xs \<noteq> []" "last xs = cu CHR '']''"
    by (auto simp: bracket_only_def split: list.splits)
  have t: "trim s = s"
    using xs by (intro trim_id) (simp_all add: s brackets_not_ws)
  have f: "\<not> startsWith s (fence @ str ''json'')" "\<not> startsWith s fence"
    by (simp_all add: s fence_def backtick_def cu_def)
  have m: "match s re_array = Some [s]"
    using array_match[OF xs] by (simp add: s)
  have b: "remove_first s re_before = s"
    by (simp add: s before_id)
  have a: "remove_first s re_after = s"
    using xs by (intro after_id) (simp add: s)
  show "sanitize s = s"
    by (simp add: sanitize_def t f m b a)
qed

text \<open>
  C6. On a text in bracket-only form the sanitizer changes nothing: trimming finds no
  white space, there is no fence, the span from the first \<open>[\<close> to the last \<open>]\<close>
  is the whole text, and nothing stands before the first bracket or after the last.
  So sanitizing such a text twice gives what sanitizing it once gives.
\<close>

theorem sanitizer_idempotent:
  "bracket_only s \<Longrightarrow> sanitize (sanitize s) = sanitize s \<and> sanitize s = s"
  by (simp add: sanitize_bracket_only)

theorem sanitizer_idempotent_witness:
  "bracket_only json_reply \<and> sanitize (sanitize json_reply) = sanitize json_reply \<and>
   sanitize json_reply = str ''[{},  {}]''"
proof -
  have b: "bracket_only json_reply"
    by (simp add: bracket_only_def json_reply_def str_def cu_def)
  from sanitizer_idempotent[OF b] show ?thesis
    using b by (simp add: json_reply_def)
qed

end
